theory Spec2Isabelle
  imports Complex_Main "HOL-Library.Word"
begin

section \<open>SkyDB (src/skydb.ts): values, options, errors\<close>

text \<open>
  A \<open>Uint8Array\<close> is a list of bytes. A JavaScript value, as far as this code looks at
  one (JSON documents, option values), is a \<open>jsval\<close>: \<open>JUndefined\<close> is what reading a
  missing property gives. An object keeps its properties as an association list, read with
  \<open>map_of\<close>.
\<close>

type_synonym Uint8Array = "8 word list"

datatype jsval =
    JUndefined
  | JNull
  | JBool bool
  | JNumber rat
  | JString string
  | JArray "jsval list"
  | JObject "(string \<times> jsval) list"

text \<open>JavaScript truthiness, as used by \<open>if (x)\<close>, \<open>!x\<close> and \<open>x && y\<close>.\<close>

fun truthy :: "jsval \<Rightarrow> bool" where
  "truthy JUndefined = False"
| "truthy JNull = False"
| "truthy (JBool b) = b"
| "truthy (JNumber n) = (n \<noteq> 0)"
| "truthy (JString s) = (s \<noteq> [])"
| "truthy (JArray xs) = True"
| "truthy (JObject kvs) = True"

text \<open>\<open>typeof v === "object"\<close>; it holds of \<open>null\<close> too.\<close>

fun typeof_object :: "jsval \<Rightarrow> bool" where
  "typeof_object JNull = True"
| "typeof_object (JArray xs) = True"
| "typeof_object (JObject kvs) = True"
| "typeof_object v = False"

text \<open>\<open>v[k]\<close> for a property name \<open>k\<close> that is not an array index.\<close>

fun property :: "jsval \<Rightarrow> string \<Rightarrow> jsval" where
  "property (JObject kvs) k = (case map_of kvs k of None \<Rightarrow> JUndefined | Some v \<Rightarrow> v)"
| "property v k = JUndefined"

text \<open>
  An options object is a finite map from property names to values, so that the object
  spread \<open>{...a, ...b}\<close> is \<open>a ++ b\<close>. An optional parameter \<open>customOptions?\<close> is an
  \<open>options option\<close>; spreading \<open>undefined\<close> adds nothing.
\<close>

type_synonym options = "string \<rightharpoonup> jsval"

definition spread :: "options option \<Rightarrow> options" where
  "spread custom = (case custom of None \<Rightarrow> Map.empty | Some m \<Rightarrow> m)"

definition option_value :: "options \<Rightarrow> string \<Rightarrow> jsval" where
  "option_value m k = (case m k of None \<Rightarrow> JUndefined | Some v \<Rightarrow> v)"

text \<open>
  What a validation error expected: the texts built in src/skydb.ts are kept apart, the
  texts of the validators of ./utils/validation and ./registry are \<open>Other\<close>.
\<close>

datatype expected =
    LengthAtMost nat nat  \<comment> \<open>'Uint8Array' of length <= MAX_ENTRY_LENGTH, was length n\<close>
  | LengthBytes nat  \<comment> \<open>length RAW_SKYLINK_SIZE bytes\<close>
  | Other

datatype error =
    ValidationError string expected  \<comment> \<open>throwValidationError(name, _, _, expected)\<close>
  | MaxRevision  \<comment> \<open>Current entry already has maximum allowed revision, ...\<close>
  | HigherRevisionCached  \<comment> \<open>A higher revision number ... is already cached\<close>
  | DeletionSentinel  \<comment> \<open>Tried to set 'Uint8Array' entry data that is the deletion sentinel\<close>
  | NotJSON string  \<comment> \<open>File data for the entry at data key '...' is not JSON.\<close>
  | DataNotJSON string  \<comment> \<open>File data '_data' for the entry at data key '...' is not JSON.\<close>
  | TypeError  \<comment> \<open>undefined - BigInt(1)\<close>
  | PadOverflow  \<comment> \<open>Could not pad file size, overflow detected.\<close>
  | CheckOverflow  \<comment> \<open>Could not check padded file size, overflow detected.\<close>
  | Thrown string  \<comment> \<open>whatever a collaborator or an imported helper throws\<close>

record RegistryEntry =
  dataKey :: string
  data :: Uint8Array
  revision :: "int option"  \<comment> \<open>a bigint; \<open>None\<close> is the missing field that \<open>??\<close> caters for\<close>

record File =
  fileBits :: "string + Uint8Array"
  fileName :: string
  fileType :: string

text \<open>
  The calls made to the collaborators (registry, uploader, downloader), in order. The
  client carries this log as a ghost field, so that "before any I/O" can be stated.
\<close>

datatype call =
    GetEntry string string
  | SetEntry string RegistryEntry
  | UploadFile File
  | GetFileContent string

record SkynetClient =
  customOptions :: options
  revisionNumberCache :: "string \<rightharpoonup> int"
  calls :: "call list"

text \<open>
  Everything src/skydb.ts imports and that is not among the sources is a parameter: the
  constants, the validators and codecs (\<open>None\<close> when a validator returns normally), and
  the collaborators, each a function from its arguments to what it returns or throws.
\<close>

record deps =
  MAX_REVISION :: int
  RAW_SKYLINK_SIZE :: nat
  BASE64_ENCODED_SKYLINK_SIZE :: nat
  URI_SKYNET_PREFIX :: string
  DEFAULT_BASE_OPTIONS :: options
  DEFAULT_GET_ENTRY_OPTIONS :: options
  DEFAULT_SET_ENTRY_OPTIONS :: options
  DEFAULT_DOWNLOAD_OPTIONS :: options
  DEFAULT_UPLOAD_OPTIONS :: options
  extractOptions :: "options \<Rightarrow> options \<Rightarrow> options"
  validatePublicKey :: "string \<Rightarrow> error option"
  validateHexString :: "string \<Rightarrow> error option"
  validateObject :: "jsval \<Rightarrow> error option"
  validateOptionalObject :: "options option \<Rightarrow> options \<Rightarrow> error option"
  validateSkylinkString :: "jsval \<Rightarrow> error + string"
  validateUint8ArrayLen :: "string \<Rightarrow> Uint8Array \<Rightarrow> nat \<Rightarrow> error option"
  hexToUint8Array :: "string \<Rightarrow> error + Uint8Array"
  fromSecretKey :: "Uint8Array \<Rightarrow> error + Uint8Array"
  toHexString :: "Uint8Array \<Rightarrow> string"
  stringToUint8ArrayUtf8 :: "string \<Rightarrow> Uint8Array"
  uint8ArrayToStringUtf8 :: "Uint8Array \<Rightarrow> string"
  encodeSkylinkBase64 :: "Uint8Array \<Rightarrow> string"
  decodeSkylinkBase64 :: "string \<Rightarrow> error + Uint8Array"
  formatSkylink :: "string \<Rightarrow> string"
  trimUriPrefix :: "string \<Rightarrow> string \<Rightarrow> string"
  JSON_stringify :: "jsval \<Rightarrow> string"
  registry_getEntry :: "string \<Rightarrow> string \<Rightarrow> options \<Rightarrow> error + RegistryEntry option"
  registry_setEntry :: "string \<Rightarrow> RegistryEntry \<Rightarrow> options \<Rightarrow> error option"
  uploadFile :: "File \<Rightarrow> options \<Rightarrow> error + string"
  getFileContent :: "string \<Rightarrow> options \<Rightarrow> error + jsval"
  getFileContentArrayBuffer :: "string \<Rightarrow> options \<Rightarrow> error + Uint8Array"

text \<open>
  Modelled from the spec: MAX_ENTRY_LENGTH of ./mysky, which is not among the sources.
  "maximum raw registry-entry payload length (70 bytes)"; the doc comment of
  \<open>setEntryData\<close> says the same.
\<close>

definition MAX_ENTRY_LENGTH :: nat where
  "MAX_ENTRY_LENGTH = 70"

text \<open>\<open>new Uint8Array(RAW_SKYLINK_SIZE)\<close>: that many zero bytes.\<close>

definition DELETION_ENTRY_DATA :: "deps \<Rightarrow> Uint8Array" where
  "DELETION_ENTRY_DATA D = replicate (RAW_SKYLINK_SIZE D) 0"

text \<open>
  Modelled from the spec: EMPTY_SKYLINK of ./skylink/sia, which is not among the sources.
  "The deletion sentinel is the all-zero byte string of the binary form's length".
\<close>

definition EMPTY_SKYLINK :: "deps \<Rightarrow> Uint8Array" where
  "EMPTY_SKYLINK D = replicate (RAW_SKYLINK_SIZE D) 0"

text \<open>
  Modelled from the spec: areEqualUint8Arrays of ./utils/array, which is not among the
  sources. "equality is checked byte-for-byte, not by encoding".
\<close>

definition areEqualUint8Arrays :: "Uint8Array \<Rightarrow> Uint8Array \<Rightarrow> bool" where
  "areEqualUint8Arrays a b = (a = b)"

definition JSON_RESPONSE_VERSION :: rat where
  "JSON_RESPONSE_VERSION = 2"

definition UNCACHED_REVISION_NUMBER :: int where
  "UNCACHED_REVISION_NUMBER = - 1"

definition DEFAULT_GET_JSON_OPTIONS :: "deps \<Rightarrow> options" where
  "DEFAULT_GET_JSON_OPTIONS D =
     (DEFAULT_BASE_OPTIONS D ++ DEFAULT_GET_ENTRY_OPTIONS D ++ DEFAULT_DOWNLOAD_OPTIONS D)
       (''cachedDataLink'' \<mapsto> JUndefined)"

definition DEFAULT_SET_JSON_OPTIONS :: "deps \<Rightarrow> options" where
  "DEFAULT_SET_JSON_OPTIONS D =
     DEFAULT_BASE_OPTIONS D ++ DEFAULT_UPLOAD_OPTIONS D ++ DEFAULT_GET_JSON_OPTIONS D
       ++ DEFAULT_SET_ENTRY_OPTIONS D"

definition DEFAULT_SET_ENTRY_DATA_OPTIONS :: "deps \<Rightarrow> options" where
  "DEFAULT_SET_ENTRY_DATA_OPTIONS D =
     (DEFAULT_BASE_OPTIONS D ++ DEFAULT_GET_ENTRY_OPTIONS D ++ DEFAULT_SET_ENTRY_OPTIONS D)
       (''allowDeletionEntryData'' \<mapsto> JBool False)"

section \<open>The revision cache\<close>

definition getCacheKey :: "string \<Rightarrow> string \<Rightarrow> string" where
  "getCacheKey publicKey dk = publicKey @ ''/'' @ dk"

text \<open>
  The revision a cache stands for at a key: the spec reads a missing entry as the
  unknown revision, \<open>-1\<close>, which is what \<open>cachedRevision ?? UNCACHED_REVISION_NUMBER\<close> does.
\<close>

definition cachedOrUncached :: "(string \<rightharpoonup> int) \<Rightarrow> string \<Rightarrow> int" where
  "cachedOrUncached cache cacheKey =
     (case cache cacheKey of None \<Rightarrow> UNCACHED_REVISION_NUMBER | Some r \<Rightarrow> r)"

definition record_call :: "call \<Rightarrow> SkynetClient \<Rightarrow> SkynetClient" where
  "record_call c client = client\<lparr>calls := calls client @ [c]\<rparr>"

text \<open>
  \<open>client.revisionNumberCache[cacheKey] -= BigInt(1)\<close>. On a missing entry the
  subtraction \<open>undefined - 1n\<close> throws a TypeError and nothing is stored.
\<close>

definition decrementCachedRevision ::
  "SkynetClient \<Rightarrow> string \<Rightarrow> string \<Rightarrow> (error + unit) \<times> SkynetClient" where
  "decrementCachedRevision client publicKey dk =
     (let cacheKey = getCacheKey publicKey dk in
      case revisionNumberCache client cacheKey of
        None \<Rightarrow> (Inl TypeError, client)
      | Some r \<Rightarrow>
          (Inr (), client\<lparr>revisionNumberCache := (revisionNumberCache client)(cacheKey \<mapsto> r - 1)\<rparr>))"

definition incrementRevision :: "deps \<Rightarrow> int \<Rightarrow> error + int" where
  "incrementRevision D r =
     (let r' = r + 1 in
      if r' > MAX_REVISION D then Inl MaxRevision else Inr r')"

definition incrementCachedRevision ::
  "deps \<Rightarrow> SkynetClient \<Rightarrow> string \<Rightarrow> string \<Rightarrow> (error + int) \<times> SkynetClient" where
  "incrementCachedRevision D client publicKey dk =
     (let cacheKey = getCacheKey publicKey dk;
          cachedRevision = revisionNumberCache client cacheKey;
          r = (case cachedRevision of None \<Rightarrow> UNCACHED_REVISION_NUMBER | Some c \<Rightarrow> c)
      in case incrementRevision D r of
           Inl e \<Rightarrow> (Inl e, client)
         | Inr newRevision \<Rightarrow>
             (Inr newRevision,
              client\<lparr>revisionNumberCache := (revisionNumberCache client)(cacheKey \<mapsto> newRevision)\<rparr>))"

section \<open>Entry data: validation, write, delete\<close>

text \<open>
  \<open>validateEntryData(data, allowDeletionEntryData)\<close>: \<open>None\<close> when it returns normally.
  The flag is whatever value the merged options hold; the code tests \<open>!allowDeletionEntryData\<close>.
\<close>

definition validateEntryData :: "deps \<Rightarrow> Uint8Array \<Rightarrow> jsval \<Rightarrow> error option" where
  "validateEntryData D bytes allowDeletionEntryData =
     (if length bytes > MAX_ENTRY_LENGTH
      then Some (ValidationError ''data'' (LengthAtMost MAX_ENTRY_LENGTH (length bytes)))
      else if \<not> truthy allowDeletionEntryData \<and> areEqualUint8Arrays bytes (DELETION_ENTRY_DATA D)
      then Some DeletionSentinel
      else None)"

text \<open>
  \<open>toHexString(sign.keyPair.fromSecretKey(hexToUint8Array(privateKey)).publicKey)\<close>, the
  two statements that derive the owner's public key in \<open>setJSON\<close> and \<open>setEntryData\<close>.
\<close>

definition publicKeyOf :: "deps \<Rightarrow> string \<Rightarrow> error + string" where
  "publicKeyOf D privateKey =
     (case hexToUint8Array D privateKey of
        Inl e \<Rightarrow> Inl e
      | Inr secretKey \<Rightarrow>
          (case fromSecretKey D secretKey of
             Inl e \<Rightarrow> Inl e
           | Inr publicKeyArray \<Rightarrow> Inr (toHexString D publicKeyArray)))"

text \<open>
  The \<open>catch\<close> block of both writes: undo the increment, then throw \<open>e\<close> again (or
  what the decrement threw).
\<close>

definition revert_and_throw ::
  "SkynetClient \<Rightarrow> string \<Rightarrow> string \<Rightarrow> error \<Rightarrow> (error + 'a) \<times> SkynetClient" where
  "revert_and_throw client publicKey dk e =
     (case decrementCachedRevision client publicKey dk of
        (Inl e', client') \<Rightarrow> (Inl e', client')
      | (Inr u, client') \<Rightarrow> (Inl e, client'))"

text \<open>
  \<open>setEntryData\<close>. \<open>validateString\<close> of the data key and \<open>validateUint8Array\<close> of the
  data cannot fail on a \<open>string\<close> and a \<open>Uint8Array\<close>. The result is \<open>entry.data\<close>.
\<close>

definition setEntryData ::
  "deps \<Rightarrow> SkynetClient \<Rightarrow> string \<Rightarrow> string \<Rightarrow> Uint8Array \<Rightarrow> options option
     \<Rightarrow> (error + Uint8Array) \<times> SkynetClient" where
  "setEntryData D client privateKey dk bytes custom =
     (case validateHexString D privateKey of
        Some e \<Rightarrow> (Inl e, client)
      | None \<Rightarrow>
     (case validateOptionalObject D custom (DEFAULT_SET_ENTRY_DATA_OPTIONS D) of
        Some e \<Rightarrow> (Inl e, client)
      | None \<Rightarrow>
     (let opts = DEFAULT_SET_ENTRY_DATA_OPTIONS D ++ customOptions client ++ spread custom in
      case validateEntryData D bytes (option_value opts ''allowDeletionEntryData'') of
        Some e \<Rightarrow> (Inl e, client)
      | None \<Rightarrow>
     (case publicKeyOf D privateKey of
        Inl e \<Rightarrow> (Inl e, client)
      | Inr publicKey \<Rightarrow>
     (case incrementCachedRevision D client publicKey dk of
        (Inl e, client1) \<Rightarrow> (Inl e, client1)
      | (Inr newRevision, client1) \<Rightarrow>
          (let entry = \<lparr>dataKey = dk, data = bytes, revision = Some newRevision\<rparr>;
               setEntryOpts = extractOptions D opts (DEFAULT_SET_ENTRY_OPTIONS D);
               client2 = record_call (SetEntry privateKey entry) client1
           in case registry_setEntry D privateKey entry setEntryOpts of
                Some e \<Rightarrow> revert_and_throw client2 publicKey dk e
              | None \<Rightarrow> (Inr (data entry), client2)))))))"

text \<open>
  \<open>setEntryData\<close> is an \<open>async\<close> function. It runs without interruption up to
  \<open>await this.registry.setEntry(...)\<close>, and the rest runs once the registry has answered;
  other operations on the same client can run in between. \<open>setEntryData\<close> above is the
  run in which nothing does. The two parts, for the runs in which writes overlap: the first
  validates, reserves the revision and issues the call; the second takes the registry's
  answer and returns, or rolls back and throws.
\<close>

record PendingSetEntry =
  pendingPublicKey :: string
  pendingEntry :: RegistryEntry
  pendingOpts :: options

definition setEntryData_start ::
  "deps \<Rightarrow> SkynetClient \<Rightarrow> string \<Rightarrow> string \<Rightarrow> Uint8Array \<Rightarrow> options option
     \<Rightarrow> (error + PendingSetEntry) \<times> SkynetClient" where
  "setEntryData_start D client privateKey dk bytes custom =
     (case validateHexString D privateKey of
        Some e \<Rightarrow> (Inl e, client)
      | None \<Rightarrow>
     (case validateOptionalObject D custom (DEFAULT_SET_ENTRY_DATA_OPTIONS D) of
        Some e \<Rightarrow> (Inl e, client)
      | None \<Rightarrow>
     (let opts = DEFAULT_SET_ENTRY_DATA_OPTIONS D ++ customOptions client ++ spread custom in
      case validateEntryData D bytes (option_value opts ''allowDeletionEntryData'') of
        Some e \<Rightarrow> (Inl e, client)
      | None \<Rightarrow>
     (case publicKeyOf D privateKey of
        Inl e \<Rightarrow> (Inl e, client)
      | Inr publicKey \<Rightarrow>
     (case incrementCachedRevision D client publicKey dk of
        (Inl e, client1) \<Rightarrow> (Inl e, client1)
      | (Inr newRevision, client1) \<Rightarrow>
          (let entry = \<lparr>dataKey = dk, data = bytes, revision = Some newRevision\<rparr>;
               setEntryOpts = extractOptions D opts (DEFAULT_SET_ENTRY_OPTIONS D);
               client2 = record_call (SetEntry privateKey entry) client1
           in (Inr \<lparr>pendingPublicKey = publicKey, pendingEntry = entry,
                    pendingOpts = setEntryOpts\<rparr>, client2)))))))"

definition setEntryData_resume ::
  "deps \<Rightarrow> SkynetClient \<Rightarrow> string \<Rightarrow> string \<Rightarrow> PendingSetEntry
     \<Rightarrow> (error + Uint8Array) \<times> SkynetClient" where
  "setEntryData_resume D client privateKey dk pending =
     (case registry_setEntry D privateKey (pendingEntry pending) (pendingOpts pending) of
        Some e \<Rightarrow> revert_and_throw client (pendingPublicKey pending) dk e
      | None \<Rightarrow> (Inr (data (pendingEntry pending)), client))"

text \<open>Both deletions await \<open>setEntryData\<close> and return nothing.\<close>

definition discard :: "(error + 'a) \<times> SkynetClient \<Rightarrow> (error + unit) \<times> SkynetClient" where
  "discard r = (case r of (Inl e, client) \<Rightarrow> (Inl e, client) | (Inr v, client) \<Rightarrow> (Inr (), client))"

definition deleteJSON ::
  "deps \<Rightarrow> SkynetClient \<Rightarrow> string \<Rightarrow> string \<Rightarrow> options option
     \<Rightarrow> (error + unit) \<times> SkynetClient" where
  "deleteJSON D client privateKey dk custom =
     (let opts = DEFAULT_SET_ENTRY_DATA_OPTIONS D ++ customOptions client ++ spread custom in
      discard (setEntryData D client privateKey dk (DELETION_ENTRY_DATA D)
        (Some (opts(''allowDeletionEntryData'' \<mapsto> JBool True)))))"

definition deleteEntryData ::
  "deps \<Rightarrow> SkynetClient \<Rightarrow> string \<Rightarrow> string \<Rightarrow> options option
     \<Rightarrow> (error + unit) \<times> SkynetClient" where
  "deleteEntryData D client privateKey dk custom =
     discard (setEntryData D client privateKey dk (DELETION_ENTRY_DATA D)
       (Some ((spread custom)(''allowDeletionEntryData'' \<mapsto> JBool True))))"

section \<open>JSON: write\<close>

text \<open>
  \<open>getOrCreateRegistryEntry\<close>: wrap the JSON (or take the bytes), upload the file, and
  build the entry from the skylink the uploader returns. Of the uploader's response only
  \<open>skylink\<close> is read.
\<close>

definition getOrCreateRegistryEntry ::
  "deps \<Rightarrow> SkynetClient \<Rightarrow> string \<Rightarrow> jsval + Uint8Array \<Rightarrow> int \<Rightarrow> options option
     \<Rightarrow> (error + RegistryEntry \<times> string) \<times> SkynetClient" where
  "getOrCreateRegistryEntry D client dk payload newRevision custom =
     (let opts = DEFAULT_SET_JSON_OPTIONS D ++ customOptions client ++ spread custom;
          fullData =
            (case payload of
               Inl json \<Rightarrow>
                 Inl (JSON_stringify D
                   (JObject [(''_data'', json), (''_v'', JNumber JSON_RESPONSE_VERSION)]))
             | Inr bytes \<Rightarrow> Inr bytes);
          dataKeyHex =
            (if \<not> truthy (option_value opts ''hashedDataKeyHex'')
             then toHexString D (stringToUint8ArrayUtf8 D dk) else dk);
          file = \<lparr>fileBits = fullData, fileName = ''dk:'' @ dataKeyHex,
                    fileType = ''application/json''\<rparr>;
          uploadOpts = extractOptions D opts (DEFAULT_UPLOAD_OPTIONS D);
          client1 = record_call (UploadFile file) client
      in case uploadFile D file uploadOpts of
           Inl e \<Rightarrow> (Inl e, client1)
         | Inr skylink \<Rightarrow>
             (let dataLink = trimUriPrefix D skylink (URI_SKYNET_PREFIX D) in
              case decodeSkylinkBase64 D dataLink of
                Inl e \<Rightarrow> (Inl e, client1)
              | Inr rawDataLink \<Rightarrow>
                  (case validateUint8ArrayLen D ''rawDataLink'' rawDataLink (RAW_SKYLINK_SIZE D) of
                     Some e \<Rightarrow> (Inl e, client1)
                   | None \<Rightarrow>
                       (Inr (\<lparr>dataKey = dk, data = rawDataLink, revision = Some newRevision\<rparr>,
                             formatSkylink D dataLink), client1))))"

text \<open>\<open>setJSON\<close>. The result is \<open>{ data: json, dataLink: formatSkylink(dataLink) }\<close>.\<close>

definition setJSON ::
  "deps \<Rightarrow> SkynetClient \<Rightarrow> string \<Rightarrow> string \<Rightarrow> jsval \<Rightarrow> options option
     \<Rightarrow> (error + jsval \<times> string) \<times> SkynetClient" where
  "setJSON D client privateKey dk json custom =
     (case validateHexString D privateKey of
        Some e \<Rightarrow> (Inl e, client)
      | None \<Rightarrow>
     (case validateObject D json of
        Some e \<Rightarrow> (Inl e, client)
      | None \<Rightarrow>
     (case validateOptionalObject D custom (DEFAULT_SET_JSON_OPTIONS D) of
        Some e \<Rightarrow> (Inl e, client)
      | None \<Rightarrow>
     (let opts = DEFAULT_SET_JSON_OPTIONS D ++ customOptions client ++ spread custom in
      case publicKeyOf D privateKey of
        Inl e \<Rightarrow> (Inl e, client)
      | Inr publicKey \<Rightarrow>
     (case incrementCachedRevision D client publicKey dk of
        (Inl e, client1) \<Rightarrow> (Inl e, client1)
      | (Inr newRevision, client1) \<Rightarrow>
     (case getOrCreateRegistryEntry D client1 dk (Inl json) newRevision (Some opts) of
        (Inl e, client2) \<Rightarrow> revert_and_throw client2 publicKey dk e
      | (Inr (entry, dataLink), client2) \<Rightarrow>
          (let setEntryOpts = extractOptions D opts (DEFAULT_SET_ENTRY_OPTIONS D);
               client3 = record_call (SetEntry privateKey entry) client2
           in case registry_setEntry D privateKey entry setEntryOpts of
                Some e \<Rightarrow> revert_and_throw client3 publicKey dk e
              | None \<Rightarrow> (Inr (json, formatSkylink D dataLink), client3))))))))"

section \<open>Reads\<close>

definition wasRegistryEntryDeleted :: "deps \<Rightarrow> RegistryEntry \<Rightarrow> bool" where
  "wasRegistryEntryDeleted D entry = areEqualUint8Arrays (data entry) (EMPTY_SKYLINK D)"

text \<open>
  \<open>getSkyDBRegistryEntryAndUpdateCache\<close>. The guard is \<open>cachedRevision && cachedRevision
  > newRevision\<close>: a missing entry and the bigint \<open>0n\<close> are both falsy.
\<close>

definition getSkyDBRegistryEntryAndUpdateCache ::
  "deps \<Rightarrow> SkynetClient \<Rightarrow> string \<Rightarrow> string \<Rightarrow> options
     \<Rightarrow> (error + RegistryEntry option) \<times> SkynetClient" where
  "getSkyDBRegistryEntryAndUpdateCache D client publicKey dk opts =
     (let client1 = record_call (GetEntry publicKey dk) client in
      case registry_getEntry D publicKey dk opts of
        Inl e \<Rightarrow> (Inl e, client1)
      | Inr None \<Rightarrow> (Inr None, client1)
      | Inr (Some entry) \<Rightarrow>
          (let cacheKey = getCacheKey publicKey dk;
               cachedRevision = revisionNumberCache client1 cacheKey;
               newRevision =
                 (case revision entry of
                    Some r \<Rightarrow> r
                  | None \<Rightarrow> UNCACHED_REVISION_NUMBER + 1)
           in if (case cachedRevision of
                    None \<Rightarrow> False
                  | Some c \<Rightarrow> c \<noteq> 0 \<and> c > newRevision)
              then (Inl HigherRevisionCached, client1)
              else
                (let client2 = client1\<lparr>revisionNumberCache :=
                       (revisionNumberCache client1)(cacheKey \<mapsto> newRevision)\<rparr>
                 in if wasRegistryEntryDeleted D entry then (Inr None, client2)
                    else (Inr (Some entry), client2))))"

text \<open>
  \<open>parseDataLink(data, legacy)\<close>: the raw data link and the formatted one.
\<close>

definition parseDataLink :: "deps \<Rightarrow> Uint8Array \<Rightarrow> bool \<Rightarrow> error + string \<times> string" where
  "parseDataLink D bytes legacy =
     (if legacy \<and> length bytes = BASE64_ENCODED_SKYLINK_SIZE D
      then (let rawDataLink = uint8ArrayToStringUtf8 D bytes
            in Inr (rawDataLink, formatSkylink D rawDataLink))
      else if length bytes = RAW_SKYLINK_SIZE D
      then (let rawDataLink = encodeSkylinkBase64 D bytes
            in Inr (rawDataLink, formatSkylink D rawDataLink))
      else Inl (ValidationError ''entry.data'' (LengthBytes (RAW_SKYLINK_SIZE D))))"

definition checkCachedDataLink :: "deps \<Rightarrow> string \<Rightarrow> jsval \<Rightarrow> error + bool" where
  "checkCachedDataLink D rawDataLink cachedDataLink =
     (if truthy cachedDataLink
      then (case validateSkylinkString D cachedDataLink of
              Inl e \<Rightarrow> Inl e
            | Inr parsed \<Rightarrow> Inr (rawDataLink = parsed))
      else Inr False)"

text \<open>
  The last step of \<open>getJSON\<close>, on the downloaded \<open>data\<close>: reject what is not an object,
  return legacy data as it is, else return the \<open>_data\<close> field. The second test reads
  \<open>typeof actualData !== "object" || data === null\<close>, and \<open>data\<close> is not \<open>null\<close> there.
\<close>

definition unwrapJSON :: "string \<Rightarrow> jsval \<Rightarrow> error + jsval" where
  "unwrapJSON dk downloaded =
     (if \<not> typeof_object downloaded \<or> downloaded = JNull then Inl (NotJSON dk)
      else if \<not> (truthy (property downloaded ''_data'') \<and> truthy (property downloaded ''_v''))
      then Inr downloaded
      else (let actualData = property downloaded ''_data'' in
            if \<not> typeof_object actualData \<or> downloaded = JNull then Inl (DataNotJSON dk)
            else Inr actualData))"

text \<open>
  \<open>getJSON\<close>. The response \<open>{ data, dataLink }\<close> is a pair of options, \<open>None\<close> for
  \<open>null\<close>.
\<close>

definition getJSON ::
  "deps \<Rightarrow> SkynetClient \<Rightarrow> string \<Rightarrow> string \<Rightarrow> options option
     \<Rightarrow> (error + jsval option \<times> string option) \<times> SkynetClient" where
  "getJSON D client publicKey dk custom =
     (case validatePublicKey D publicKey of
        Some e \<Rightarrow> (Inl e, client)
      | None \<Rightarrow>
     (case validateOptionalObject D custom (DEFAULT_GET_JSON_OPTIONS D) of
        Some e \<Rightarrow> (Inl e, client)
      | None \<Rightarrow>
     (let opts = DEFAULT_GET_JSON_OPTIONS D ++ customOptions client ++ spread custom;
          getEntryOpts = extractOptions D opts (DEFAULT_GET_ENTRY_OPTIONS D)
      in case getSkyDBRegistryEntryAndUpdateCache D client publicKey dk getEntryOpts of
           (Inl e, client1) \<Rightarrow> (Inl e, client1)
         | (Inr None, client1) \<Rightarrow> (Inr (None, None), client1)
         | (Inr (Some entry), client1) \<Rightarrow>
     (case parseDataLink D (data entry) True of
        Inl e \<Rightarrow> (Inl e, client1)
      | Inr (rawDataLink, dataLink) \<Rightarrow>
     (case checkCachedDataLink D rawDataLink (option_value opts ''cachedDataLink'') of
        Inl e \<Rightarrow> (Inl e, client1)
      | Inr True \<Rightarrow> (Inr (None, Some dataLink), client1)
      | Inr False \<Rightarrow>
          (let downloadOpts = extractOptions D opts (DEFAULT_DOWNLOAD_OPTIONS D);
               client2 = record_call (GetFileContent dataLink) client1
           in case getFileContent D dataLink downloadOpts of
                Inl e \<Rightarrow> (Inl e, client2)
              | Inr downloaded \<Rightarrow>
                  (case unwrapJSON dk downloaded of
                     Inl e \<Rightarrow> (Inl e, client2)
                   | Inr json \<Rightarrow> (Inr (Some json, Some dataLink), client2))))))))"

text \<open>\<open>getEntryData\<close>: \<open>{ data: entry.data }\<close>, or \<open>{ data: null }\<close>.\<close>

definition getEntryData ::
  "deps \<Rightarrow> SkynetClient \<Rightarrow> string \<Rightarrow> string \<Rightarrow> options option
     \<Rightarrow> (error + Uint8Array option) \<times> SkynetClient" where
  "getEntryData D client publicKey dk custom =
     (case validatePublicKey D publicKey of
        Some e \<Rightarrow> (Inl e, client)
      | None \<Rightarrow>
     (case validateOptionalObject D custom (DEFAULT_GET_ENTRY_OPTIONS D) of
        Some e \<Rightarrow> (Inl e, client)
      | None \<Rightarrow>
     (let opts = DEFAULT_GET_ENTRY_OPTIONS D ++ customOptions client ++ spread custom
      in case getSkyDBRegistryEntryAndUpdateCache D client publicKey dk opts of
           (Inl e, client1) \<Rightarrow> (Inl e, client1)
         | (Inr None, client1) \<Rightarrow> (Inr None, client1)
         | (Inr (Some entry), client1) \<Rightarrow> (Inr (Some (data entry)), client1))))"

text \<open>
  \<open>getRawBytes\<close>: as \<open>getJSON\<close>, with \<open>parseDataLink(entry.data, false)\<close> and the
  download asked for as an array buffer.
\<close>

definition getRawBytes ::
  "deps \<Rightarrow> SkynetClient \<Rightarrow> string \<Rightarrow> string \<Rightarrow> options option
     \<Rightarrow> (error + Uint8Array option \<times> string option) \<times> SkynetClient" where
  "getRawBytes D client publicKey dk custom =
     (case validatePublicKey D publicKey of
        Some e \<Rightarrow> (Inl e, client)
      | None \<Rightarrow>
     (case validateOptionalObject D custom (DEFAULT_GET_JSON_OPTIONS D) of
        Some e \<Rightarrow> (Inl e, client)
      | None \<Rightarrow>
     (let opts = DEFAULT_GET_JSON_OPTIONS D ++ customOptions client ++ spread custom;
          getEntryOpts = extractOptions D opts (DEFAULT_GET_ENTRY_OPTIONS D)
      in case getSkyDBRegistryEntryAndUpdateCache D client publicKey dk getEntryOpts of
           (Inl e, client1) \<Rightarrow> (Inl e, client1)
         | (Inr None, client1) \<Rightarrow> (Inr (None, None), client1)
         | (Inr (Some entry), client1) \<Rightarrow>
     (case parseDataLink D (data entry) False of
        Inl e \<Rightarrow> (Inl e, client1)
      | Inr (rawDataLink, dataLink) \<Rightarrow>
     (case checkCachedDataLink D rawDataLink (option_value opts ''cachedDataLink'') of
        Inl e \<Rightarrow> (Inl e, client1)
      | Inr True \<Rightarrow> (Inr (None, Some dataLink), client1)
      | Inr False \<Rightarrow>
          (let downloadOpts =
                 (extractOptions D opts (DEFAULT_DOWNLOAD_OPTIONS D))
                   (''responseType'' \<mapsto> JString ''arraybuffer'');
               client2 = record_call (GetFileContent dataLink) client1
           in case getFileContentArrayBuffer D dataLink downloadOpts of
                Inl e \<Rightarrow> (Inl e, client2)
              | Inr buffer \<Rightarrow> (Inr (Some buffer, Some dataLink), client2)))))))"

section \<open>Padded file sizes of the encrypted-file codec\<close>

text \<open>
  Modelled from the spec: padFileSize and checkPaddedBlock of ./encrypted_files, which is
  not among the sources; only their tests are. Section 4.5: "padFileSize(size) maps a
  plaintext size to the next size in a monotonically increasing, deterministic bucket
  sequence (small sizes round up to a minimum block; sizes grow by doubling or by fixed
  large-increment steps at higher ranges)", "checkPaddedBlock(size) is the membership
  predicate for the bucket sequence", and "Both fail with an explicit overflow error rather
  than wrapping when the input exceeds the representable range". The spec gives no
  constants; the tests fix them. In the model a size up to \<open>2^n * 80 KiB\<close>, for the least
  such \<open>n\<close>, is rounded up to a multiple of \<open>2^n * 4 KiB\<close>: the minimum block is 4 KiB and
  the block doubles with the range. The loop runs over \<open>n < 53\<close> with JavaScript's 32-bit
  \<open>1 << n\<close>, which wraps at \<open>n = 31\<close>, so that a size above \<open>2^30 * 80 KiB\<close> overflows.
  The model reproduces every vector of the tests (\<open>padFileSize_tests\<close>,
  \<open>checkPaddedBlock_tests\<close>, \<open>overflow_tests\<close>). A size is an integer-valued \<open>number\<close>.
\<close>

definition kib :: int where
  "kib = 1024"

text \<open>
  \<open>1 << n\<close>: the shift count is taken modulo 32 and the result is a signed 32-bit integer.
\<close>

definition shl1 :: "nat \<Rightarrow> int" where
  "shl1 n = sint (push_bit (n mod 32) (1 :: 32 word))"

text \<open>\<open>a % b\<close> on integers: the remainder takes the sign of the dividend.\<close>

definition js_rem :: "int \<Rightarrow> int \<Rightarrow> int" where
  "js_rem a b = sgn a * (\<bar>a\<bar> mod \<bar>b\<bar>)"

text \<open>
  Modelled from the spec: padFileSize (./encrypted_files, not among the sources), "maps a
  plaintext size to the next size in a ... bucket sequence" and fails "with an explicit
  overflow error". The loop over the ranges, then the function.
\<close>

function padFileSize_loop :: "nat \<Rightarrow> int \<Rightarrow> error + int" where
  "padFileSize_loop n initialSize =
     (if n < 53 then
        (if initialSize \<le> shl1 n * 80 * kib then
           (let paddingBlock = shl1 n * 4 * kib;
                finalSize = initialSize
            in if js_rem finalSize paddingBlock \<noteq> 0
               then Inr (initialSize - js_rem (initialSize) paddingBlock + paddingBlock)
               else Inr finalSize)
         else padFileSize_loop (n + 1) initialSize)
      else Inl PadOverflow)"
  by pat_completeness auto
termination
  by (relation "measure (\<lambda>(n, initialSize). 53 - n)") auto

definition padFileSize :: "int \<Rightarrow> error + int" where
  "padFileSize initialSize = padFileSize_loop 0 initialSize"

text \<open>
  Modelled from the spec: checkPaddedBlock (./encrypted_files, not among the sources), "the
  membership predicate for the bucket sequence", which fails with its own overflow error.
\<close>

function checkPaddedBlock_loop :: "nat \<Rightarrow> int \<Rightarrow> error + bool" where
  "checkPaddedBlock_loop n sz =
     (if n < 53 then
        (if sz \<le> shl1 n * 80 * kib then
           (let paddingBlock = shl1 n * 4 * kib
            in Inr (js_rem sz paddingBlock = 0))
         else checkPaddedBlock_loop (n + 1) sz)
      else Inl CheckOverflow)"
  by pat_completeness auto
termination
  by (relation "measure (\<lambda>(n, sz). 53 - n)") auto

definition checkPaddedBlock :: "int \<Rightarrow> error + bool" where
  "checkPaddedBlock sz = checkPaddedBlock_loop 0 sz"

section \<open>A concrete instance\<close>

text \<open>
  An instance of the imports on which the theorems below are exercised: the constants are
  those of a 34-byte skylink and a 64-bit revision, the validators accept, the codecs are
  constant functions, the registry holds no entry and accepts every write.
\<close>

definition example_deps :: deps where
  "example_deps =
     \<lparr>MAX_REVISION = 18446744073709551615,
      RAW_SKYLINK_SIZE = 34,
      BASE64_ENCODED_SKYLINK_SIZE = 46,
      URI_SKYNET_PREFIX = ''sia://'',
      DEFAULT_BASE_OPTIONS = Map.empty,
      DEFAULT_GET_ENTRY_OPTIONS = [''hashedDataKeyHex'' \<mapsto> JBool False],
      DEFAULT_SET_ENTRY_OPTIONS = [''hashedDataKeyHex'' \<mapsto> JBool False],
      DEFAULT_DOWNLOAD_OPTIONS = Map.empty,
      DEFAULT_UPLOAD_OPTIONS = Map.empty,
      extractOptions = (\<lambda>opts model. opts),
      validatePublicKey = (\<lambda>publicKey. None),
      validateHexString = (\<lambda>privateKey. None),
      validateObject = (\<lambda>json. None),
      validateOptionalObject = (\<lambda>custom model. None),
      validateSkylinkString =
        (\<lambda>v. case v of JString s \<Rightarrow> Inr s | _ \<Rightarrow> Inl (ValidationError ''cachedDataLink'' Other)),
      validateUint8ArrayLen =
        (\<lambda>name bytes n. if length bytes = n then None else Some (ValidationError name Other)),
      hexToUint8Array = (\<lambda>s. Inr []),
      fromSecretKey = (\<lambda>secretKey. Inr []),
      toHexString = (\<lambda>bytes. ''ab''),
      stringToUint8ArrayUtf8 = (\<lambda>s. []),
      uint8ArrayToStringUtf8 = (\<lambda>bytes. ''legacy''),
      encodeSkylinkBase64 = (\<lambda>bytes. ''link''),
      decodeSkylinkBase64 = (\<lambda>s. Inr (replicate 34 1)),
      formatSkylink = (\<lambda>s. ''sia://'' @ s),
      trimUriPrefix = (\<lambda>s prefix. s),
      JSON_stringify = (\<lambda>v. ''{}''),
      registry_getEntry = (\<lambda>publicKey dk opts. Inr None),
      registry_setEntry = (\<lambda>privateKey entry opts. None),
      uploadFile = (\<lambda>file opts. Inr ''link''),
      getFileContent = (\<lambda>dataLink opts. Inr (JObject [])),
      getFileContentArrayBuffer = (\<lambda>dataLink opts. Inr [])\<rparr>"

text \<open>A new client: no custom options, an empty revision cache, no call made yet.\<close>

definition new_client :: SkynetClient where
  "new_client = \<lparr>customOptions = Map.empty, revisionNumberCache = Map.empty, calls = []\<rparr>"

definition client_at :: "int \<Rightarrow> SkynetClient" where
  "client_at r = new_client\<lparr>revisionNumberCache := [''ab/k'' \<mapsto> r]\<rparr>"

text \<open>
  The same with a registry that refuses every write, with one that refuses the data
  \<open>[1]\<close> only, with one that cannot be reached, with one that holds an entry, and with a
  downloader that serves a document.
\<close>

definition offline_deps :: deps where
  "offline_deps = example_deps\<lparr>registry_setEntry := (\<lambda>privateKey entry opts. Some (Thrown ''offline''))\<rparr>"

definition picky_deps :: deps where
  "picky_deps = example_deps\<lparr>registry_setEntry :=
     (\<lambda>privateKey entry opts. if data entry = [1] then Some (Thrown ''offline'') else None)\<rparr>"

definition unreachable_deps :: deps where
  "unreachable_deps = example_deps\<lparr>registry_getEntry := (\<lambda>publicKey dk opts. Inl (Thrown ''offline''))\<rparr>"

definition deps_holding :: "RegistryEntry \<Rightarrow> deps" where
  "deps_holding entry = example_deps\<lparr>registry_getEntry := (\<lambda>publicKey dk opts. Inr (Some entry))\<rparr>"

definition deps_serving :: "RegistryEntry \<Rightarrow> jsval \<Rightarrow> deps" where
  "deps_serving entry document =
     (deps_holding entry)\<lparr>getFileContent := (\<lambda>dataLink opts. Inr document)\<rparr>"

definition example_entry :: "Uint8Array \<Rightarrow> int \<Rightarrow> RegistryEntry" where
  "example_entry bytes v = \<lparr>dataKey = ''k'', data = bytes, revision = Some v\<rparr>"

text \<open>
  Three writes of the pair \<open>(ab, k)\<close> on a new client, the first overlapped by the second:
  the first reserves and issues its call; the second runs from start to end; the registry
  then refuses the first, which rolls back; the third runs from start to end.
\<close>

definition overlap_first :: "(error + PendingSetEntry) \<times> SkynetClient" where
  "overlap_first = setEntryData_start picky_deps new_client ''00'' ''k'' [1] None"

definition overlap_second :: "(error + Uint8Array) \<times> SkynetClient" where
  "overlap_second = setEntryData picky_deps (snd overlap_first) ''00'' ''k'' [2] None"

definition overlap_first_resumed :: "(error + Uint8Array) \<times> SkynetClient" where
  "overlap_first_resumed =
     (case fst overlap_first of
        Inl e \<Rightarrow> (Inl e, snd overlap_second)
      | Inr pending \<Rightarrow> setEntryData_resume picky_deps (snd overlap_second) ''00'' ''k'' pending)"

definition overlap_third :: "(error + Uint8Array) \<times> SkynetClient" where
  "overlap_third = setEntryData picky_deps (snd overlap_first_resumed) ''00'' ''k'' [3] None"

section \<open>Facts about the revision cache\<close>

lemma incrementCachedRevision_eq:
  "incrementCachedRevision D client publicKey dk =
     (let cacheKey = getCacheKey publicKey dk;
          r = cachedOrUncached (revisionNumberCache client) cacheKey
      in if r + 1 > MAX_REVISION D then (Inl MaxRevision, client)
         else (Inr (r + 1),
               client\<lparr>revisionNumberCache := (revisionNumberCache client)(cacheKey \<mapsto> r + 1)\<rparr>))"
  by (simp add: incrementCachedRevision_def incrementRevision_def cachedOrUncached_def Let_def
      split: option.splits)

lemma not_replicate: "length xs \<noteq> n \<Longrightarrow> xs \<noteq> replicate n x"
  by auto

lemma example_publicKeyOf: "publicKeyOf example_deps ''00'' = Inr ''ab''"
  by (simp add: publicKeyOf_def example_deps_def)

lemma example_getCacheKey: "getCacheKey ''ab'' ''k'' = ''ab/k''"
  by (simp add: getCacheKey_def)

lemma example_MAX_REVISION: "MAX_REVISION example_deps = 18446744073709551615"
  by (simp add: example_deps_def)

lemma setEntryData_at_maximum:
  assumes "publicKeyOf D privateKey = Inr publicKey"
    and "cachedOrUncached (revisionNumberCache client) (getCacheKey publicKey dk) = MAX_REVISION D"
  shows "\<exists>e. setEntryData D client privateKey dk bytes custom = (Inl e, client)"
    and "validateHexString D privateKey = None
      \<Longrightarrow> validateOptionalObject D custom (DEFAULT_SET_ENTRY_DATA_OPTIONS D) = None
      \<Longrightarrow> validateEntryData D bytes
            (option_value (DEFAULT_SET_ENTRY_DATA_OPTIONS D ++ customOptions client ++ spread custom)
               ''allowDeletionEntryData'') = None
      \<Longrightarrow> setEntryData D client privateKey dk bytes custom = (Inl MaxRevision, client)"
  using assms
  by (simp_all add: setEntryData_def incrementCachedRevision_eq Let_def
      split: option.splits sum.splits)

lemma setJSON_at_maximum:
  assumes "publicKeyOf D privateKey = Inr publicKey"
    and "cachedOrUncached (revisionNumberCache client) (getCacheKey publicKey dk) = MAX_REVISION D"
  shows "\<exists>e. setJSON D client privateKey dk json custom = (Inl e, client)"
    and "validateHexString D privateKey = None
      \<Longrightarrow> validateObject D json = None
      \<Longrightarrow> validateOptionalObject D custom (DEFAULT_SET_JSON_OPTIONS D) = None
      \<Longrightarrow> setJSON D client privateKey dk json custom = (Inl MaxRevision, client)"
  using assms
  by (simp_all add: setJSON_def incrementCachedRevision_eq Let_def
      split: option.splits sum.splits)

section \<open>Overflow of the revision\<close>

text \<open>
  C5. When the cached revision of a pair is the maximum allowed revision,
  \<open>incrementCachedRevision\<close> fails with the overflow error and leaves the client, and so
  the cache, as it was; so does every \<open>setEntryData\<close> and \<open>setJSON\<close> for the pair, with
  the overflow error once the input validation has passed. When the cached revision \<open>r\<close>
  (the unknown revision \<open>-1\<close> for a pair not cached) is below the maximum, the increment
  stores and returns \<open>r + 1\<close>.
\<close>

theorem incrementCachedRevision_maximum:
  "(cachedOrUncached (revisionNumberCache client) (getCacheKey publicKey dk) = MAX_REVISION D \<longrightarrow>
      incrementCachedRevision D client publicKey dk = (Inl MaxRevision, client)
      \<and> (publicKeyOf D privateKey = Inr publicKey \<longrightarrow>
           (\<exists>e. setEntryData D client privateKey dk bytes custom = (Inl e, client))
           \<and> (validateHexString D privateKey = None
                \<and> validateOptionalObject D custom (DEFAULT_SET_ENTRY_DATA_OPTIONS D) = None
                \<and> validateEntryData D bytes
                      (option_value
                         (DEFAULT_SET_ENTRY_DATA_OPTIONS D ++ customOptions client ++ spread custom)
                         ''allowDeletionEntryData'') = None
                \<longrightarrow> setEntryData D client privateKey dk bytes custom = (Inl MaxRevision, client))
           \<and> (\<exists>e. setJSON D client privateKey dk json custom' = (Inl e, client))
           \<and> (validateHexString D privateKey = None
                \<and> validateObject D json = None
                \<and> validateOptionalObject D custom' (DEFAULT_SET_JSON_OPTIONS D) = None
                \<longrightarrow> setJSON D client privateKey dk json custom' = (Inl MaxRevision, client))))
   \<and> (cachedOrUncached (revisionNumberCache client) (getCacheKey publicKey dk) = r
        \<and> r < MAX_REVISION D \<longrightarrow>
      incrementCachedRevision D client publicKey dk =
        (Inr (r + 1),
         client\<lparr>revisionNumberCache :=
           (revisionNumberCache client)(getCacheKey publicKey dk \<mapsto> r + 1)\<rparr>))"
  using setEntryData_at_maximum[where D = D and privateKey = privateKey
      and publicKey = publicKey and client = client and dk = dk and bytes = bytes
      and custom = custom]
    setJSON_at_maximum[where D = D and privateKey = privateKey and publicKey = publicKey
      and client = client and dk = dk and json = json and custom = custom']
  by (simp add: incrementCachedRevision_eq Let_def)

theorem incrementCachedRevision_maximum_witness:
  "incrementCachedRevision example_deps (client_at 18446744073709551615) ''ab'' ''k''
     = (Inl MaxRevision, client_at 18446744073709551615)
   \<and> setEntryData example_deps (client_at 18446744073709551615) ''00'' ''k'' [1, 2, 3] None
       = (Inl MaxRevision, client_at 18446744073709551615)
   \<and> setJSON example_deps (client_at 18446744073709551615) ''00'' ''k'' (JObject []) None
       = (Inl MaxRevision, client_at 18446744073709551615)
   \<and> fst (incrementCachedRevision example_deps (client_at 6) ''ab'' ''k'') = Inr 7
   \<and> revisionNumberCache (snd (incrementCachedRevision example_deps (client_at 6) ''ab'' ''k''))
        ''ab/k'' = Some 7
   \<and> fst (incrementCachedRevision example_deps new_client ''ab'' ''k'') = Inr 0"
proof -
  have at_max:
    "cachedOrUncached (revisionNumberCache (client_at 18446744073709551615))
       (getCacheKey ''ab'' ''k'') = MAX_REVISION example_deps"
    by (simp add: client_at_def new_client_def example_getCacheKey example_MAX_REVISION
        cachedOrUncached_def)
  have below:
    "cachedOrUncached (revisionNumberCache (client_at 6)) (getCacheKey ''ab'' ''k'') = 6
      \<and> 6 < MAX_REVISION example_deps"
    by (simp add: client_at_def new_client_def example_getCacheKey example_MAX_REVISION
        cachedOrUncached_def)
  have fresh:
    "cachedOrUncached (revisionNumberCache new_client) (getCacheKey ''ab'' ''k'') = - 1
      \<and> - 1 < MAX_REVISION example_deps"
    by (simp add: new_client_def example_MAX_REVISION cachedOrUncached_def
        UNCACHED_REVISION_NUMBER_def)
  have valid:
    "validateHexString example_deps ''00'' = None
      \<and> validateObject example_deps (JObject []) = None
      \<and> validateOptionalObject example_deps None (DEFAULT_SET_ENTRY_DATA_OPTIONS example_deps) = None
      \<and> validateOptionalObject example_deps None (DEFAULT_SET_JSON_OPTIONS example_deps) = None
      \<and> validateEntryData example_deps [1, 2, 3] v = None" for v
    by (simp add: example_deps_def validateEntryData_def MAX_ENTRY_LENGTH_def
        areEqualUint8Arrays_def DELETION_ENTRY_DATA_def not_replicate)
  show ?thesis
    using incrementCachedRevision_maximum[where client = "client_at 18446744073709551615"
        and publicKey = "''ab''" and dk = "''k''" and D = example_deps and privateKey = "''00''"
        and bytes = "[1, 2, 3]" and custom = None and json = "JObject []" and custom' = None
        and r = 0]
      incrementCachedRevision_maximum[where client = "client_at 6"
        and publicKey = "''ab''" and dk = "''k''" and D = example_deps and privateKey = "''00''"
        and bytes = "[]" and custom = None and json = JNull and custom' = None and r = 6]
      incrementCachedRevision_maximum[where client = new_client
        and publicKey = "''ab''" and dk = "''k''" and D = example_deps and privateKey = "''00''"
        and bytes = "[]" and custom = None and json = JNull and custom' = None and r = "- 1"]
      at_max below fresh valid example_publicKeyOf
    by (simp add: example_getCacheKey)
qed

section \<open>Validation of entry data\<close>

lemma setEntryData_rejected:
  assumes "validateEntryData D bytes
      (option_value (DEFAULT_SET_ENTRY_DATA_OPTIONS D ++ customOptions client ++ spread custom)
         ''allowDeletionEntryData'') = Some err"
  shows "\<exists>e. setEntryData D client privateKey dk bytes custom = (Inl e, client)"
    and "validateHexString D privateKey = None
      \<Longrightarrow> validateOptionalObject D custom (DEFAULT_SET_ENTRY_DATA_OPTIONS D) = None
      \<Longrightarrow> setEntryData D client privateKey dk bytes custom = (Inl err, client)"
  using assms
  by (simp_all add: setEntryData_def Let_def split: option.splits)

text \<open>
  C6. In \<open>setEntryData\<close>, data longer than \<open>MAX_ENTRY_LENGTH = 70\<close> bytes is rejected, with
  the validation error for \<open>data\<close> once the private key and the options object have been
  accepted; data equal to the deletion sentinel is rejected when the merged option
  \<open>allowDeletionEntryData\<close> is not truthy, with the sentinel error once those validations
  and the length check have passed; and a truthy option lets every data of at most 70 bytes
  through \<open>validateEntryData\<close>. A rejected call returns the client as it was: the revision
  cache is unchanged and no collaborator has been called.
\<close>

theorem setEntryData_validates_first:
  "(length bytes > 70 \<longrightarrow>
      (\<exists>e. setEntryData D client privateKey dk bytes custom = (Inl e, client))
      \<and> (validateHexString D privateKey = None
           \<and> validateOptionalObject D custom (DEFAULT_SET_ENTRY_DATA_OPTIONS D) = None \<longrightarrow>
         setEntryData D client privateKey dk bytes custom
           = (Inl (ValidationError ''data'' (LengthAtMost 70 (length bytes))), client)))
   \<and> (bytes = DELETION_ENTRY_DATA D
        \<and> \<not> truthy (option_value
              (DEFAULT_SET_ENTRY_DATA_OPTIONS D ++ customOptions client ++ spread custom)
              ''allowDeletionEntryData'') \<longrightarrow>
      (\<exists>e. setEntryData D client privateKey dk bytes custom = (Inl e, client))
      \<and> (validateHexString D privateKey = None
           \<and> validateOptionalObject D custom (DEFAULT_SET_ENTRY_DATA_OPTIONS D) = None
           \<and> length bytes \<le> 70 \<longrightarrow>
         setEntryData D client privateKey dk bytes custom = (Inl DeletionSentinel, client)))
   \<and> (length bytes \<le> 70 \<and> truthy allow \<longrightarrow> validateEntryData D bytes allow = None)"
proof -
  let ?allow = "option_value
      (DEFAULT_SET_ENTRY_DATA_OPTIONS D ++ customOptions client ++ spread custom)
      ''allowDeletionEntryData''"
  have long: "validateEntryData D bytes ?allow
      = Some (ValidationError ''data'' (LengthAtMost 70 (length bytes)))"
    if "length bytes > 70"
    using that by (simp add: validateEntryData_def MAX_ENTRY_LENGTH_def)
  have sentinel: "\<exists>err. validateEntryData D bytes ?allow = Some err
      \<and> (length bytes \<le> 70 \<longrightarrow> err = DeletionSentinel)"
    if "bytes = DELETION_ENTRY_DATA D" and "\<not> truthy ?allow"
    using that by (simp add: validateEntryData_def MAX_ENTRY_LENGTH_def areEqualUint8Arrays_def)
  have allowed: "validateEntryData D bytes allow = None" if "length bytes \<le> 70" and "truthy allow"
    using that by (simp add: validateEntryData_def MAX_ENTRY_LENGTH_def)
  show ?thesis
    using setEntryData_rejected[where D = D and bytes = bytes and client = client
        and custom = custom and privateKey = privateKey and dk = dk] long sentinel allowed
    by (metis not_le)
qed

lemma example_DELETION_ENTRY_DATA: "DELETION_ENTRY_DATA example_deps = replicate 34 0"
  by (simp add: DELETION_ENTRY_DATA_def example_deps_def)

theorem setEntryData_validates_first_witness:
  "setEntryData example_deps new_client ''00'' ''k'' (replicate 71 7) None
     = (Inl (ValidationError ''data'' (LengthAtMost 70 71)), new_client)
   \<and> setEntryData example_deps new_client ''00'' ''k'' (replicate 34 0) None
     = (Inl DeletionSentinel, new_client)
   \<and> validateEntryData example_deps (replicate 34 0) (JBool True) = None"
proof -
  have valid:
    "validateHexString example_deps ''00'' = None
      \<and> validateOptionalObject example_deps None (DEFAULT_SET_ENTRY_DATA_OPTIONS example_deps) = None"
    by (simp add: example_deps_def)
  have flag: "\<not> truthy (option_value
      (DEFAULT_SET_ENTRY_DATA_OPTIONS example_deps ++ customOptions new_client ++ spread None)
      ''allowDeletionEntryData'')"
    by (simp add: option_value_def DEFAULT_SET_ENTRY_DATA_OPTIONS_def new_client_def spread_def)
  show ?thesis
    using setEntryData_validates_first[where bytes = "replicate 71 7" and D = example_deps
        and client = new_client and privateKey = "''00''" and dk = "''k''" and custom = None
        and allow = JNull]
      setEntryData_validates_first[where bytes = "replicate 34 0" and D = example_deps
        and client = new_client and privateKey = "''00''" and dk = "''k''" and custom = None
        and allow = "JBool True"]
      valid flag
    by (simp add: example_DELETION_ENTRY_DATA)
qed

section \<open>Deletion\<close>

lemma setEntryData_calls:
  "calls (snd (setEntryData D client privateKey dk bytes custom)) = calls client
   \<or> (\<exists>r. calls (snd (setEntryData D client privateKey dk bytes custom))
         = calls client @ [SetEntry privateKey \<lparr>dataKey = dk, data = bytes, revision = Some r\<rparr>])"
  by (auto simp add: setEntryData_def incrementCachedRevision_eq Let_def record_call_def
      revert_and_throw_def decrementCachedRevision_def
      split: option.splits sum.splits prod.splits)

lemma setEntryData_success_calls:
  "fst (setEntryData D client privateKey dk bytes custom) = Inr v \<Longrightarrow>
     \<exists>r. calls (snd (setEntryData D client privateKey dk bytes custom))
         = calls client @ [SetEntry privateKey \<lparr>dataKey = dk, data = bytes, revision = Some r\<rparr>]"
  by (auto simp add: setEntryData_def incrementCachedRevision_eq Let_def record_call_def
      revert_and_throw_def decrementCachedRevision_def
      split: option.splits sum.splits prod.splits if_splits)

lemma discard_snd: "snd (discard r) = snd r"
  by (simp add: discard_def split: prod.splits sum.splits)

lemma discard_Inr: "fst (discard r) = Inr u \<Longrightarrow> \<exists>v. fst r = Inr v"
  by (auto simp add: discard_def split: prod.splits sum.splits)

lemma validateEntryData_allowed:
  "validateEntryData D bytes (JBool True) \<noteq> Some DeletionSentinel"
  by (simp add: validateEntryData_def)

lemma setEntryData_run:
  assumes "validateHexString D privateKey = None"
    and "validateOptionalObject D custom (DEFAULT_SET_ENTRY_DATA_OPTIONS D) = None"
    and "validateEntryData D bytes
      (option_value (DEFAULT_SET_ENTRY_DATA_OPTIONS D ++ customOptions client ++ spread custom)
         ''allowDeletionEntryData'') = None"
    and "publicKeyOf D privateKey = Inr publicKey"
  shows "setEntryData D client privateKey dk bytes custom =
    (let cacheKey = getCacheKey publicKey dk;
         r = cachedOrUncached (revisionNumberCache client) cacheKey;
         entry = \<lparr>dataKey = dk, data = bytes, revision = Some (r + 1)\<rparr>;
         opts = DEFAULT_SET_ENTRY_DATA_OPTIONS D ++ customOptions client ++ spread custom
     in if r + 1 > MAX_REVISION D then (Inl MaxRevision, client)
        else (case registry_setEntry D privateKey entry
                     (extractOptions D opts (DEFAULT_SET_ENTRY_OPTIONS D)) of
                None \<Rightarrow>
                  (Inr bytes,
                   client\<lparr>revisionNumberCache := (revisionNumberCache client)(cacheKey \<mapsto> r + 1),
                          calls := calls client @ [SetEntry privateKey entry]\<rparr>)
              | Some e \<Rightarrow>
                  (Inl e,
                   client\<lparr>revisionNumberCache := (revisionNumberCache client)(cacheKey \<mapsto> r),
                          calls := calls client @ [SetEntry privateKey entry]\<rparr>)))"
  using assms
  by (simp add: setEntryData_def incrementCachedRevision_eq Let_def record_call_def
      revert_and_throw_def decrementCachedRevision_def split: option.splits)

lemma setEntryData_error_source:
  "fst (setEntryData D client privateKey dk bytes custom) = Inl e \<Longrightarrow>
     validateHexString D privateKey = Some e
     \<or> validateOptionalObject D custom (DEFAULT_SET_ENTRY_DATA_OPTIONS D) = Some e
     \<or> validateEntryData D bytes
          (option_value (DEFAULT_SET_ENTRY_DATA_OPTIONS D ++ customOptions client ++ spread custom)
             ''allowDeletionEntryData'') = Some e
     \<or> publicKeyOf D privateKey = Inl e
     \<or> e = MaxRevision
     \<or> (\<exists>entry opts. registry_setEntry D privateKey entry opts = Some e)"
  by (auto simp add: setEntryData_def incrementCachedRevision_eq Let_def record_call_def
      revert_and_throw_def decrementCachedRevision_def
      split: option.splits sum.splits prod.splits if_splits)

lemma discard_fst:
  "fst (discard r) = (case fst r of Inl e \<Rightarrow> Inl e | Inr v \<Rightarrow> Inr ())"
  by (simp add: discard_def split: prod.splits sum.splits)

text \<open>
  C10. \<open>deleteJSON\<close> and \<open>deleteEntryData\<close>, with any options of the caller, are
  \<open>setEntryData\<close> on the all-zero sentinel with an options object whose
  \<open>allowDeletionEntryData\<close> is \<open>true\<close>, whatever the caller passed, and that is the value
  \<open>setEntryData\<close> reads from its merged options. So a deletion is never rejected by the
  sentinel check: if it throws the sentinel error, a validator, the key derivation or the
  registry threw it; and when the private key and the options object are accepted, the
  sentinel is at most 70 bytes long, the public key is derived and the revision is below the
  maximum, the deletion calls the registry's \<open>setEntry\<close> with the sentinel at the next
  revision and returns what the registry answers. The only call a deletion can make is
  that one, and it has made it when it succeeds.
\<close>

theorem delete_overrides_allowDeletionEntryData:
  assumes "merged = DEFAULT_SET_ENTRY_DATA_OPTIONS D ++ customOptions client ++ spread custom"
    and "passedJSON = merged(''allowDeletionEntryData'' \<mapsto> JBool True)"
    and "passedEntry = (spread custom)(''allowDeletionEntryData'' \<mapsto> JBool True)"
    and "sentinel = replicate (RAW_SKYLINK_SIZE D) 0"
    and "r = cachedOrUncached (revisionNumberCache client) (getCacheKey publicKey dk)"
    and "entry = \<lparr>dataKey = dk, data = sentinel, revision = Some (r + 1)\<rparr>"
  shows
    "deleteJSON D client privateKey dk custom
        = discard (setEntryData D client privateKey dk sentinel (Some passedJSON))
     \<and> deleteEntryData D client privateKey dk custom
        = discard (setEntryData D client privateKey dk sentinel (Some passedEntry))
     \<and> passedJSON ''allowDeletionEntryData'' = Some (JBool True)
     \<and> passedEntry ''allowDeletionEntryData'' = Some (JBool True)
     \<and> option_value (DEFAULT_SET_ENTRY_DATA_OPTIONS D ++ customOptions client
            ++ spread (Some passedJSON)) ''allowDeletionEntryData'' = JBool True
     \<and> option_value (DEFAULT_SET_ENTRY_DATA_OPTIONS D ++ customOptions client
            ++ spread (Some passedEntry)) ''allowDeletionEntryData'' = JBool True
     \<and> (fst (deleteJSON D client privateKey dk custom) = Inl DeletionSentinel \<longrightarrow>
          validateHexString D privateKey = Some DeletionSentinel
          \<or> validateOptionalObject D (Some passedJSON) (DEFAULT_SET_ENTRY_DATA_OPTIONS D)
              = Some DeletionSentinel
          \<or> publicKeyOf D privateKey = Inl DeletionSentinel
          \<or> (\<exists>written opts. registry_setEntry D privateKey written opts = Some DeletionSentinel))
     \<and> (fst (deleteEntryData D client privateKey dk custom) = Inl DeletionSentinel \<longrightarrow>
          validateHexString D privateKey = Some DeletionSentinel
          \<or> validateOptionalObject D (Some passedEntry) (DEFAULT_SET_ENTRY_DATA_OPTIONS D)
              = Some DeletionSentinel
          \<or> publicKeyOf D privateKey = Inl DeletionSentinel
          \<or> (\<exists>written opts. registry_setEntry D privateKey written opts = Some DeletionSentinel))
     \<and> (validateHexString D privateKey = None
          \<and> validateOptionalObject D (Some passedJSON) (DEFAULT_SET_ENTRY_DATA_OPTIONS D) = None
          \<and> RAW_SKYLINK_SIZE D \<le> 70
          \<and> publicKeyOf D privateKey = Inr publicKey
          \<and> r + 1 \<le> MAX_REVISION D \<longrightarrow>
        calls (snd (deleteJSON D client privateKey dk custom))
          = calls client @ [SetEntry privateKey entry]
        \<and> fst (deleteJSON D client privateKey dk custom)
          = (case registry_setEntry D privateKey entry
                    (extractOptions D
                       (DEFAULT_SET_ENTRY_DATA_OPTIONS D ++ customOptions client ++ passedJSON)
                       (DEFAULT_SET_ENTRY_OPTIONS D)) of
               None \<Rightarrow> Inr ()
             | Some e \<Rightarrow> Inl e))
     \<and> (validateHexString D privateKey = None
          \<and> validateOptionalObject D (Some passedEntry) (DEFAULT_SET_ENTRY_DATA_OPTIONS D) = None
          \<and> RAW_SKYLINK_SIZE D \<le> 70
          \<and> publicKeyOf D privateKey = Inr publicKey
          \<and> r + 1 \<le> MAX_REVISION D \<longrightarrow>
        calls (snd (deleteEntryData D client privateKey dk custom))
          = calls client @ [SetEntry privateKey entry]
        \<and> fst (deleteEntryData D client privateKey dk custom)
          = (case registry_setEntry D privateKey entry
                    (extractOptions D
                       (DEFAULT_SET_ENTRY_DATA_OPTIONS D ++ customOptions client ++ passedEntry)
                       (DEFAULT_SET_ENTRY_OPTIONS D)) of
               None \<Rightarrow> Inr ()
             | Some e \<Rightarrow> Inl e))
     \<and> (calls (snd (deleteJSON D client privateKey dk custom)) = calls client
          \<or> (\<exists>v. calls (snd (deleteJSON D client privateKey dk custom))
                = calls client @ [SetEntry privateKey
                    \<lparr>dataKey = dk, data = sentinel, revision = Some v\<rparr>]))
     \<and> (calls (snd (deleteEntryData D client privateKey dk custom)) = calls client
          \<or> (\<exists>v. calls (snd (deleteEntryData D client privateKey dk custom))
                = calls client @ [SetEntry privateKey
                    \<lparr>dataKey = dk, data = sentinel, revision = Some v\<rparr>]))
     \<and> (fst (deleteJSON D client privateKey dk custom) = Inr () \<longrightarrow>
          (\<exists>v. calls (snd (deleteJSON D client privateKey dk custom))
                = calls client @ [SetEntry privateKey
                    \<lparr>dataKey = dk, data = sentinel, revision = Some v\<rparr>]))
     \<and> (fst (deleteEntryData D client privateKey dk custom) = Inr () \<longrightarrow>
          (\<exists>v. calls (snd (deleteEntryData D client privateKey dk custom))
                = calls client @ [SetEntry privateKey
                    \<lparr>dataKey = dk, data = sentinel, revision = Some v\<rparr>]))"
proof -
  have dj: "deleteJSON D client privateKey dk custom
      = discard (setEntryData D client privateKey dk sentinel (Some passedJSON))"
    unfolding assms(1,2,4) by (simp add: deleteJSON_def DELETION_ENTRY_DATA_def Let_def)
  have de: "deleteEntryData D client privateKey dk custom
      = discard (setEntryData D client privateKey dk sentinel (Some passedEntry))"
    unfolding assms(3,4) by (simp add: deleteEntryData_def DELETION_ENTRY_DATA_def)
  have p1: "passedJSON ''allowDeletionEntryData'' = Some (JBool True)"
    and p2: "passedEntry ''allowDeletionEntryData'' = Some (JBool True)"
    unfolding assms(2,3) by simp_all
  have read: "option_value (DEFAULT_SET_ENTRY_DATA_OPTIONS D ++ customOptions client
        ++ spread (Some passed)) ''allowDeletionEntryData'' = JBool True"
    if "passed ''allowDeletionEntryData'' = Some (JBool True)" for passed
    using that by (simp add: option_value_def spread_def)
  have check: "validateEntryData D sentinel
        (option_value (DEFAULT_SET_ENTRY_DATA_OPTIONS D ++ customOptions client
           ++ spread (Some passed)) ''allowDeletionEntryData'') \<noteq> Some DeletionSentinel"
    and pass: "RAW_SKYLINK_SIZE D \<le> 70 \<Longrightarrow> validateEntryData D sentinel
        (option_value (DEFAULT_SET_ENTRY_DATA_OPTIONS D ++ customOptions client
           ++ spread (Some passed)) ''allowDeletionEntryData'') = None"
    if "passed ''allowDeletionEntryData'' = Some (JBool True)" for passed
    unfolding read[of passed, OF that] assms(4)
    by (simp_all add: validateEntryData_def MAX_ENTRY_LENGTH_def)
  have not_check: "validateHexString D privateKey = Some DeletionSentinel
          \<or> validateOptionalObject D (Some passed) (DEFAULT_SET_ENTRY_DATA_OPTIONS D)
              = Some DeletionSentinel
          \<or> publicKeyOf D privateKey = Inl DeletionSentinel
          \<or> (\<exists>written opts. registry_setEntry D privateKey written opts = Some DeletionSentinel)"
    if "passed ''allowDeletionEntryData'' = Some (JBool True)"
      and "fst (discard (setEntryData D client privateKey dk sentinel (Some passed)))
        = Inl DeletionSentinel" for passed
  proof -
    have "fst (setEntryData D client privateKey dk sentinel (Some passed)) = Inl DeletionSentinel"
      using that(2) by (simp add: discard_fst split: sum.splits)
    then show ?thesis
      using setEntryData_error_source[of D client privateKey dk sentinel "Some passed"
          DeletionSentinel] check[of passed, OF that(1)]
      by auto
  qed
  have proceeds: "calls (snd (discard (setEntryData D client privateKey dk sentinel (Some passed))))
          = calls client @ [SetEntry privateKey entry]
        \<and> fst (discard (setEntryData D client privateKey dk sentinel (Some passed)))
          = (case registry_setEntry D privateKey entry
                    (extractOptions D
                       (DEFAULT_SET_ENTRY_DATA_OPTIONS D ++ customOptions client ++ passed)
                       (DEFAULT_SET_ENTRY_OPTIONS D)) of
               None \<Rightarrow> Inr ()
             | Some e \<Rightarrow> Inl e)"
    if "passed ''allowDeletionEntryData'' = Some (JBool True)"
      and "validateHexString D privateKey = None"
      and "validateOptionalObject D (Some passed) (DEFAULT_SET_ENTRY_DATA_OPTIONS D) = None"
      and "RAW_SKYLINK_SIZE D \<le> 70"
      and "publicKeyOf D privateKey = Inr publicKey"
      and "r + 1 \<le> MAX_REVISION D" for passed
    using setEntryData_run[OF that(2,3) pass[of passed, OF that(1,4)] that(5), of dk] that(6)
    unfolding assms(5,6)
    by (simp add: Let_def discard_fst discard_snd spread_def split: option.splits)
  have c1: "calls (snd (discard (setEntryData D client privateKey dk sentinel (Some passed))))
        = calls client
       \<or> (\<exists>v. calls (snd (discard (setEntryData D client privateKey dk sentinel (Some passed))))
             = calls client @ [SetEntry privateKey
                 \<lparr>dataKey = dk, data = sentinel, revision = Some v\<rparr>])" for passed
    unfolding discard_snd by (rule setEntryData_calls)
  have s1: "\<exists>v. calls (snd (discard (setEntryData D client privateKey dk sentinel (Some passed))))
             = calls client @ [SetEntry privateKey
                 \<lparr>dataKey = dk, data = sentinel, revision = Some v\<rparr>]"
    if "fst (discard (setEntryData D client privateKey dk sentinel (Some passed))) = Inr ()"
    for passed
    using that discard_Inr setEntryData_success_calls unfolding discard_snd by blast
  have r1: "option_value (DEFAULT_SET_ENTRY_DATA_OPTIONS D ++ customOptions client
            ++ spread (Some passedJSON)) ''allowDeletionEntryData'' = JBool True"
    by (rule read[of passedJSON, OF p1])
  have r2: "option_value (DEFAULT_SET_ENTRY_DATA_OPTIONS D ++ customOptions client
            ++ spread (Some passedEntry)) ''allowDeletionEntryData'' = JBool True"
    by (rule read[of passedEntry, OF p2])
  have n1: "fst (deleteJSON D client privateKey dk custom) = Inl DeletionSentinel \<longrightarrow>
          validateHexString D privateKey = Some DeletionSentinel
          \<or> validateOptionalObject D (Some passedJSON) (DEFAULT_SET_ENTRY_DATA_OPTIONS D)
              = Some DeletionSentinel
          \<or> publicKeyOf D privateKey = Inl DeletionSentinel
          \<or> (\<exists>written opts. registry_setEntry D privateKey written opts = Some DeletionSentinel)"
    unfolding dj using not_check[of passedJSON, OF p1] by blast
  have n2: "fst (deleteEntryData D client privateKey dk custom) = Inl DeletionSentinel \<longrightarrow>
          validateHexString D privateKey = Some DeletionSentinel
          \<or> validateOptionalObject D (Some passedEntry) (DEFAULT_SET_ENTRY_DATA_OPTIONS D)
              = Some DeletionSentinel
          \<or> publicKeyOf D privateKey = Inl DeletionSentinel
          \<or> (\<exists>written opts. registry_setEntry D privateKey written opts = Some DeletionSentinel)"
    unfolding de using not_check[of passedEntry, OF p2] by blast
  have g1: "validateHexString D privateKey = None
          \<and> validateOptionalObject D (Some passedJSON) (DEFAULT_SET_ENTRY_DATA_OPTIONS D) = None
          \<and> RAW_SKYLINK_SIZE D \<le> 70
          \<and> publicKeyOf D privateKey = Inr publicKey
          \<and> r + 1 \<le> MAX_REVISION D \<longrightarrow>
        calls (snd (deleteJSON D client privateKey dk custom))
          = calls client @ [SetEntry privateKey entry]
        \<and> fst (deleteJSON D client privateKey dk custom)
          = (case registry_setEntry D privateKey entry
                    (extractOptions D
                       (DEFAULT_SET_ENTRY_DATA_OPTIONS D ++ customOptions client ++ passedJSON)
                       (DEFAULT_SET_ENTRY_OPTIONS D)) of
               None \<Rightarrow> Inr ()
             | Some e \<Rightarrow> Inl e)"
    unfolding dj using proceeds[of passedJSON, OF p1] by blast
  have g2: "validateHexString D privateKey = None
          \<and> validateOptionalObject D (Some passedEntry) (DEFAULT_SET_ENTRY_DATA_OPTIONS D) = None
          \<and> RAW_SKYLINK_SIZE D \<le> 70
          \<and> publicKeyOf D privateKey = Inr publicKey
          \<and> r + 1 \<le> MAX_REVISION D \<longrightarrow>
        calls (snd (deleteEntryData D client privateKey dk custom))
          = calls client @ [SetEntry privateKey entry]
        \<and> fst (deleteEntryData D client privateKey dk custom)
          = (case registry_setEntry D privateKey entry
                    (extractOptions D
                       (DEFAULT_SET_ENTRY_DATA_OPTIONS D ++ customOptions client ++ passedEntry)
                       (DEFAULT_SET_ENTRY_OPTIONS D)) of
               None \<Rightarrow> Inr ()
             | Some e \<Rightarrow> Inl e)"
    unfolding de using proceeds[of passedEntry, OF p2] by blast
  have m1: "fst (deleteJSON D client privateKey dk custom) = Inr () \<longrightarrow>
          (\<exists>v. calls (snd (deleteJSON D client privateKey dk custom))
                = calls client @ [SetEntry privateKey
                    \<lparr>dataKey = dk, data = sentinel, revision = Some v\<rparr>])"
    unfolding dj using s1[of passedJSON] by blast
  have m2: "fst (deleteEntryData D client privateKey dk custom) = Inr () \<longrightarrow>
          (\<exists>v. calls (snd (deleteEntryData D client privateKey dk custom))
                = calls client @ [SetEntry privateKey
                    \<lparr>dataKey = dk, data = sentinel, revision = Some v\<rparr>])"
    unfolding de using s1[of passedEntry] by blast
  note all = dj de p1 p2 r1 r2 n1 n2 g1 g2 c1[of passedJSON, folded dj] c1[of passedEntry, folded de]
    m1 m2
  show ?thesis
    by (intro conjI) (rule all)+
qed

theorem delete_overrides_allowDeletionEntryData_witness:
  "fst (deleteJSON example_deps new_client ''00'' ''k''
          (Some [''allowDeletionEntryData'' \<mapsto> JBool False])) = Inr ()
   \<and> calls (snd (deleteJSON example_deps new_client ''00'' ''k''
          (Some [''allowDeletionEntryData'' \<mapsto> JBool False])))
       = [SetEntry ''00'' \<lparr>dataKey = ''k'', data = replicate 34 0, revision = Some 0\<rparr>]
   \<and> fst (deleteEntryData example_deps new_client ''00'' ''k''
          (Some [''allowDeletionEntryData'' \<mapsto> JBool False])) = Inr ()
   \<and> calls (snd (deleteEntryData example_deps new_client ''00'' ''k''
          (Some [''allowDeletionEntryData'' \<mapsto> JBool False])))
       = [SetEntry ''00'' \<lparr>dataKey = ''k'', data = replicate 34 0, revision = Some 0\<rparr>]"
proof -
  have facts: "RAW_SKYLINK_SIZE example_deps = 34"
    "validateHexString example_deps ''00'' = None"
    "validateOptionalObject example_deps passed model = None"
    "registry_setEntry example_deps ''00'' written opts = None"
    "MAX_REVISION example_deps = 18446744073709551615" for passed model written opts
    by (simp_all add: example_deps_def)
  have empty: "calls new_client = []"
    "cachedOrUncached (revisionNumberCache new_client) (getCacheKey ''ab'' ''k'') = - 1"
    by (simp_all add: new_client_def cachedOrUncached_def UNCACHED_REVISION_NUMBER_def)
  note at = delete_overrides_allowDeletionEntryData[where D = example_deps
      and client = new_client and privateKey = "''00''" and dk = "''k''" and publicKey = "''ab''"
      and r = "- 1" and custom = "Some [''allowDeletionEntryData'' \<mapsto> JBool False]",
      OF refl refl refl refl empty(2) [symmetric] refl]
  have json: "fst (deleteJSON example_deps new_client ''00'' ''k''
          (Some [''allowDeletionEntryData'' \<mapsto> JBool False])) = Inr ()
     \<and> calls (snd (deleteJSON example_deps new_client ''00'' ''k''
          (Some [''allowDeletionEntryData'' \<mapsto> JBool False])))
       = [SetEntry ''00'' \<lparr>dataKey = ''k'', data = replicate 34 0, revision = Some 0\<rparr>]"
    using at[THEN conjunct2, THEN conjunct2, THEN conjunct2, THEN conjunct2, THEN conjunct2, THEN conjunct2, THEN conjunct2, THEN conjunct2, THEN conjunct1] example_publicKeyOf
    by (simp add: facts empty)
  have entry: "fst (deleteEntryData example_deps new_client ''00'' ''k''
          (Some [''allowDeletionEntryData'' \<mapsto> JBool False])) = Inr ()
     \<and> calls (snd (deleteEntryData example_deps new_client ''00'' ''k''
          (Some [''allowDeletionEntryData'' \<mapsto> JBool False])))
       = [SetEntry ''00'' \<lparr>dataKey = ''k'', data = replicate 34 0, revision = Some 0\<rparr>]"
    using at[THEN conjunct2, THEN conjunct2, THEN conjunct2, THEN conjunct2, THEN conjunct2, THEN conjunct2, THEN conjunct2, THEN conjunct2, THEN conjunct2, THEN conjunct1] example_publicKeyOf
    by (simp add: facts empty)
  show ?thesis
    using json entry by simp
qed

section \<open>Reservation and rollback in the writes\<close>

lemma revert_after_increment:
  "revert_and_throw
     (client\<lparr>revisionNumberCache := c(getCacheKey publicKey dk \<mapsto> r + 1), calls := cs\<rparr>)
     publicKey dk e
    = (Inl e, client\<lparr>revisionNumberCache := c(getCacheKey publicKey dk \<mapsto> r), calls := cs\<rparr>)"
  by (simp add: revert_and_throw_def decrementCachedRevision_def Let_def)

lemma setEntryData_unchanged:
  "validateHexString D privateKey \<noteq> None
     \<or> validateOptionalObject D custom (DEFAULT_SET_ENTRY_DATA_OPTIONS D) \<noteq> None
     \<or> validateEntryData D bytes
      (option_value (DEFAULT_SET_ENTRY_DATA_OPTIONS D ++ customOptions client ++ spread custom)
         ''allowDeletionEntryData'') \<noteq> None
     \<or> (\<exists>e. publicKeyOf D privateKey = Inl e)
   \<Longrightarrow> \<exists>e. setEntryData D client privateKey dk bytes custom = (Inl e, client)"
  by (auto simp add: setEntryData_def Let_def split: option.splits sum.splits)

lemma setEntryData_cases:
  assumes pk: "publicKeyOf D privateKey = Inr publicKey"
    and key: "cacheKey = getCacheKey publicKey dk"
    and r: "r = cachedOrUncached (revisionNumberCache client) cacheKey"
    and entry: "entry = \<lparr>dataKey = dk, data = bytes, revision = Some (r + 1)\<rparr>"
    and setOpts: "setOpts = extractOptions D
        (DEFAULT_SET_ENTRY_DATA_OPTIONS D ++ customOptions client ++ spread custom)
        (DEFAULT_SET_ENTRY_OPTIONS D)"
  shows
    "(\<exists>e. setEntryData D client privateKey dk bytes custom = (Inl e, client))
     \<or> (registry_setEntry D privateKey entry setOpts = None
         \<and> setEntryData D client privateKey dk bytes custom =
          (Inr bytes,
           client\<lparr>revisionNumberCache := (revisionNumberCache client)(cacheKey \<mapsto> r + 1),
                  calls := calls client @ [SetEntry privateKey entry]\<rparr>))
     \<or> (\<exists>e. registry_setEntry D privateKey entry setOpts = Some e
         \<and> setEntryData D client privateKey dk bytes custom =
          (Inl e,
           client\<lparr>revisionNumberCache := (revisionNumberCache client)(cacheKey \<mapsto> r),
                  calls := calls client @ [SetEntry privateKey entry]\<rparr>))"
proof (cases "validateHexString D privateKey = None
     \<and> validateOptionalObject D custom (DEFAULT_SET_ENTRY_DATA_OPTIONS D) = None
     \<and> validateEntryData D bytes
      (option_value (DEFAULT_SET_ENTRY_DATA_OPTIONS D ++ customOptions client ++ spread custom)
         ''allowDeletionEntryData'') = None")
  case True
  then show ?thesis
    using setEntryData_run[where D = D and privateKey = privateKey and custom = custom
        and bytes = bytes and client = client and publicKey = publicKey and dk = dk] pk
    unfolding key r entry setOpts
    by (auto simp add: Let_def split: option.splits)
next
  case False
  then show ?thesis
    using setEntryData_unchanged[where D = D and privateKey = privateKey and custom = custom
        and bytes = bytes and client = client and dk = dk]
    by blast
qed

lemma getOrCreateRegistryEntry_cases:
  "\<exists>f. snd (getOrCreateRegistryEntry D client dk payload newRevision custom)
        = record_call (UploadFile f) client
     \<and> (case fst (getOrCreateRegistryEntry D client dk payload newRevision custom) of
          Inl e \<Rightarrow> True
        | Inr (entry, dataLink) \<Rightarrow> dataKey entry = dk \<and> revision entry = Some newRevision)"
proof -
  obtain f where f: "f =
      \<lparr>fileBits =
         (case payload of
            Inl json \<Rightarrow>
              Inl (JSON_stringify D
                (JObject [(''_data'', json), (''_v'', JNumber JSON_RESPONSE_VERSION)]))
          | Inr bytes \<Rightarrow> Inr bytes),
       fileName = ''dk:'' @
         (if \<not> truthy (option_value
               (DEFAULT_SET_JSON_OPTIONS D ++ customOptions client ++ spread custom)
               ''hashedDataKeyHex'')
          then toHexString D (stringToUint8ArrayUtf8 D dk) else dk),
       fileType = ''application/json''\<rparr>"
    by blast
  have "snd (getOrCreateRegistryEntry D client dk payload newRevision custom)
        = record_call (UploadFile f) client
     \<and> (case fst (getOrCreateRegistryEntry D client dk payload newRevision custom) of
          Inl e \<Rightarrow> True
        | Inr (entry, dataLink) \<Rightarrow> dataKey entry = dk \<and> revision entry = Some newRevision)"
    unfolding f
    by (simp add: getOrCreateRegistryEntry_def Let_def split: sum.splits option.splits)
  then show ?thesis by blast
qed

lemma setJSON_unchanged:
  "validateHexString D privateKey \<noteq> None
     \<or> validateObject D json \<noteq> None
     \<or> validateOptionalObject D custom (DEFAULT_SET_JSON_OPTIONS D) \<noteq> None
     \<or> (\<exists>e. publicKeyOf D privateKey = Inl e)
   \<Longrightarrow> \<exists>e. setJSON D client privateKey dk json custom = (Inl e, client)"
  by (auto simp add: setJSON_def Let_def split: option.splits sum.splits)

lemma setJSON_cases:
  assumes pk: "publicKeyOf D privateKey = Inr publicKey"
    and key: "cacheKey = getCacheKey publicKey dk"
    and r: "r = cachedOrUncached (revisionNumberCache client) cacheKey"
    and jsonOpts: "jsonOpts = DEFAULT_SET_JSON_OPTIONS D ++ customOptions client ++ spread custom"
    and reserved: "reserved =
        client\<lparr>revisionNumberCache := (revisionNumberCache client)(cacheKey \<mapsto> r + 1)\<rparr>"
    and created: "created = getOrCreateRegistryEntry D reserved dk (Inl json) (r + 1) (Some jsonOpts)"
  shows
    "(\<exists>e. setJSON D client privateKey dk json custom = (Inl e, client))
     \<or> (\<exists>f uploaded dataLink.
           fst created = Inr (uploaded, dataLink)
         \<and> dataKey uploaded = dk \<and> revision uploaded = Some (r + 1)
         \<and> registry_setEntry D privateKey uploaded
              (extractOptions D jsonOpts (DEFAULT_SET_ENTRY_OPTIONS D)) = None
         \<and> setJSON D client privateKey dk json custom =
          (Inr (json, formatSkylink D dataLink),
           client\<lparr>revisionNumberCache := (revisionNumberCache client)(cacheKey \<mapsto> r + 1),
                  calls := calls client @ [UploadFile f, SetEntry privateKey uploaded]\<rparr>))
     \<or> (\<exists>e more.
           (fst created = Inl e
            \<or> (\<exists>uploaded dataLink. fst created = Inr (uploaded, dataLink)
                 \<and> registry_setEntry D privateKey uploaded
                      (extractOptions D jsonOpts (DEFAULT_SET_ENTRY_OPTIONS D)) = Some e))
         \<and> setJSON D client privateKey dk json custom =
          (Inl e,
           client\<lparr>revisionNumberCache := (revisionNumberCache client)(cacheKey \<mapsto> r),
                  calls := calls client @ more\<rparr>)
         \<and> more \<noteq> [])"
proof (cases "validateHexString D privateKey = None \<and> validateObject D json = None
     \<and> validateOptionalObject D custom (DEFAULT_SET_JSON_OPTIONS D) = None")
  case False
  then show ?thesis
    using setJSON_unchanged[where D = D and privateKey = privateKey and custom = custom
        and json = json and client = client and dk = dk]
    by blast
next
  case True
  show ?thesis
  proof (cases "r + 1 > MAX_REVISION D")
    case over: True
    then have "setJSON D client privateKey dk json custom = (Inl MaxRevision, client)"
      using True pk key r by (simp add: setJSON_def incrementCachedRevision_eq Let_def)
    then show ?thesis by blast
  next
    case fits: False
    obtain f where
      snd_eq: "snd created = record_call (UploadFile f) reserved"
      and fst_ok: "case fst created of
          Inl e \<Rightarrow> True
        | Inr (uploaded, dataLink) \<Rightarrow> dataKey uploaded = dk \<and> revision uploaded = Some (r + 1)"
      using getOrCreateRegistryEntry_cases[of D reserved dk "Inl json" "r + 1" "Some jsonOpts"]
      unfolding created by blast
    obtain res client2 where g: "created = (res, client2)"
      by (cases created)
    have client2: "client2 = record_call (UploadFile f) reserved"
      using snd_eq g by simp
    have step: "setJSON D client privateKey dk json custom =
      (case res of
         Inl e \<Rightarrow> revert_and_throw client2 publicKey dk e
       | Inr (uploaded, dataLink) \<Rightarrow>
           (case registry_setEntry D privateKey uploaded
                  (extractOptions D jsonOpts (DEFAULT_SET_ENTRY_OPTIONS D)) of
              Some e \<Rightarrow>
                revert_and_throw (record_call (SetEntry privateKey uploaded) client2) publicKey dk e
            | None \<Rightarrow>
                (Inr (json, formatSkylink D dataLink),
                 record_call (SetEntry privateKey uploaded) client2)))"
      using True pk fits g[unfolded created reserved jsonOpts r key]
      unfolding jsonOpts r key
      by (simp add: setJSON_def incrementCachedRevision_eq Let_def split: sum.splits prod.splits)
    show ?thesis
    proof (cases res)
      case (Inl e)
      have "setJSON D client privateKey dk json custom =
          (Inl e,
           client\<lparr>revisionNumberCache := (revisionNumberCache client)(cacheKey \<mapsto> r),
                  calls := calls client @ [UploadFile f]\<rparr>)"
        using step Inl
        by (simp add: client2 reserved record_call_def key revert_after_increment)
      moreover have "fst created = Inl e" using g Inl by simp
      ultimately show ?thesis by blast
    next
      case (Inr pair)
      obtain uploaded dataLink where pair: "pair = (uploaded, dataLink)" by (cases pair)
      have found: "fst created = Inr (uploaded, dataLink)" using g Inr pair by simp
      have uploaded: "dataKey uploaded = dk \<and> revision uploaded = Some (r + 1)"
        using fst_ok found by simp
      show ?thesis
      proof (cases "registry_setEntry D privateKey uploaded
                  (extractOptions D jsonOpts (DEFAULT_SET_ENTRY_OPTIONS D))")
        case None
        then have "setJSON D client privateKey dk json custom =
          (Inr (json, formatSkylink D dataLink),
           client\<lparr>revisionNumberCache := (revisionNumberCache client)(cacheKey \<mapsto> r + 1),
                  calls := calls client @ [UploadFile f, SetEntry privateKey uploaded]\<rparr>)"
          using step Inr pair by (simp add: client2 reserved record_call_def)
        then show ?thesis using uploaded None found by blast
      next
        case (Some e)
        have "setJSON D client privateKey dk json custom =
          (Inl e,
           client\<lparr>revisionNumberCache := (revisionNumberCache client)(cacheKey \<mapsto> r),
                  calls := calls client @ [UploadFile f, SetEntry privateKey uploaded]\<rparr>)"
          using step Inr pair Some
          by (simp add: client2 reserved record_call_def key revert_after_increment)
        then show ?thesis using found Some by blast
      qed
    qed
  qed
qed

text \<open>The whole write is its first part followed, with nothing in between, by its second.\<close>

lemma setEntryData_phases:
  "setEntryData D client privateKey dk bytes custom =
     (case setEntryData_start D client privateKey dk bytes custom of
        (Inl e, client') \<Rightarrow> (Inl e, client')
      | (Inr pending, client') \<Rightarrow> setEntryData_resume D client' privateKey dk pending)"
  by (auto simp add: setEntryData_def setEntryData_start_def setEntryData_resume_def Let_def
      split: option.splits sum.splits prod.splits)

text \<open>
  C1, as the code has it, for a write (\<open>setEntryData\<close> or \<open>setJSON\<close>) that nothing overlaps:
  it runs from \<open>client\<close> to the client it returns with no other operation on the client in
  between. Let \<open>r\<close> be the cached revision of the pair before the write, \<open>-1\<close> when the pair
  has no entry, as in an empty cache. A write that succeeds has handed the registry, which
  accepted it, an entry of revision \<open>r + 1\<close> and leaves exactly \<open>r + 1\<close> cached for the pair;
  for a pair with no entry that is revision \<open>0\<close>. A write that fails either returns the
  client as it was (it failed before or at the reservation), or throws the error of the step
  that failed after the reservation (the registry's for \<open>setEntryData\<close>; that of
  \<open>getOrCreateRegistryEntry\<close>, or the registry's, for \<open>setJSON\<close>) with the decremented
  revision \<open>r\<close> stored for the pair. That is the cache before the write when the pair had an
  entry, and the entry \<open>-1\<close> in place of no entry when it had none.
\<close>

theorem write_reserves_next_revision:
  assumes "publicKeyOf D privateKey = Inr publicKey"
    and "cacheKey = getCacheKey publicKey dk"
    and "r = cachedOrUncached (revisionNumberCache client) cacheKey"
    and "entry = \<lparr>dataKey = dk, data = bytes, revision = Some (r + 1)\<rparr>"
    and "setOpts = extractOptions D
        (DEFAULT_SET_ENTRY_DATA_OPTIONS D ++ customOptions client ++ spread custom)
        (DEFAULT_SET_ENTRY_OPTIONS D)"
    and "jsonOpts = DEFAULT_SET_JSON_OPTIONS D ++ customOptions client ++ spread custom'"
    and "reserved =
        client\<lparr>revisionNumberCache := (revisionNumberCache client)(cacheKey \<mapsto> r + 1)\<rparr>"
    and "created = getOrCreateRegistryEntry D reserved dk (Inl json) (r + 1) (Some jsonOpts)"
  shows
    "(revisionNumberCache client cacheKey = None \<longrightarrow> r + 1 = 0)
     \<and> (setEntryData D client privateKey dk bytes custom = (Inr v, client') \<longrightarrow>
          registry_setEntry D privateKey entry setOpts = None
          \<and> revisionNumberCache client' = (revisionNumberCache client)(cacheKey \<mapsto> r + 1)
          \<and> calls client' = calls client @ [SetEntry privateKey entry])
     \<and> (setJSON D client privateKey dk json custom' = (Inr w, client'') \<longrightarrow>
          revisionNumberCache client'' = (revisionNumberCache client)(cacheKey \<mapsto> r + 1)
          \<and> (\<exists>f uploaded dataLink.
                fst created = Inr (uploaded, dataLink)
                \<and> dataKey uploaded = dk \<and> revision uploaded = Some (r + 1)
                \<and> registry_setEntry D privateKey uploaded
                     (extractOptions D jsonOpts (DEFAULT_SET_ENTRY_OPTIONS D)) = None
                \<and> calls client'' = calls client @ [UploadFile f, SetEntry privateKey uploaded]))
     \<and> (setEntryData D client privateKey dk bytes custom = (Inl e, client') \<longrightarrow>
          client' = client
          \<or> registry_setEntry D privateKey entry setOpts = Some e
            \<and> revisionNumberCache client' = (revisionNumberCache client)(cacheKey \<mapsto> r)
            \<and> calls client' = calls client @ [SetEntry privateKey entry])
     \<and> (setJSON D client privateKey dk json custom' = (Inl e', client'') \<longrightarrow>
          client'' = client
          \<or> (fst created = Inl e'
               \<or> (\<exists>uploaded dataLink. fst created = Inr (uploaded, dataLink)
                    \<and> registry_setEntry D privateKey uploaded
                         (extractOptions D jsonOpts (DEFAULT_SET_ENTRY_OPTIONS D)) = Some e'))
            \<and> revisionNumberCache client'' = (revisionNumberCache client)(cacheKey \<mapsto> r)
            \<and> (\<exists>more. more \<noteq> [] \<and> calls client'' = calls client @ more))
     \<and> ((revisionNumberCache client)(cacheKey \<mapsto> r) = revisionNumberCache client
          \<or> revisionNumberCache client cacheKey = None \<and> r = - 1)"
proof -
  have as_before: "(revisionNumberCache client)(cacheKey \<mapsto> r) = revisionNumberCache client
      \<or> revisionNumberCache client cacheKey = None \<and> r = - 1"
    using assms(3)
    by (cases "revisionNumberCache client cacheKey")
      (auto simp add: cachedOrUncached_def UNCACHED_REVISION_NUMBER_def)
  have fresh: "revisionNumberCache client cacheKey = None \<longrightarrow> r + 1 = 0"
    using assms(3) by (simp add: cachedOrUncached_def UNCACHED_REVISION_NUMBER_def)
  note entryData_cases = setEntryData_cases[OF assms(1,2,3,4,5)]
  note json_cases = setJSON_cases[OF assms(1,2,3,6,7,8)]
  have entryData_ok: "setEntryData D client privateKey dk bytes custom = (Inr v, client') \<longrightarrow>
          registry_setEntry D privateKey entry setOpts = None
          \<and> revisionNumberCache client' = (revisionNumberCache client)(cacheKey \<mapsto> r + 1)
          \<and> calls client' = calls client @ [SetEntry privateKey entry]"
    using entryData_cases by (elim disjE exE conjE) auto
  have entryData_failed: "setEntryData D client privateKey dk bytes custom = (Inl e, client') \<longrightarrow>
          client' = client
          \<or> registry_setEntry D privateKey entry setOpts = Some e
            \<and> revisionNumberCache client' = (revisionNumberCache client)(cacheKey \<mapsto> r)
            \<and> calls client' = calls client @ [SetEntry privateKey entry]"
    using entryData_cases by (elim disjE exE conjE) auto
  have json_ok: "setJSON D client privateKey dk json custom' = (Inr w, client'') \<longrightarrow>
          revisionNumberCache client'' = (revisionNumberCache client)(cacheKey \<mapsto> r + 1)
          \<and> (\<exists>f uploaded dataLink.
                fst created = Inr (uploaded, dataLink)
                \<and> dataKey uploaded = dk \<and> revision uploaded = Some (r + 1)
                \<and> registry_setEntry D privateKey uploaded
                     (extractOptions D jsonOpts (DEFAULT_SET_ENTRY_OPTIONS D)) = None
                \<and> calls client'' = calls client @ [UploadFile f, SetEntry privateKey uploaded])"
    using json_cases by (elim disjE exE conjE) auto
  have json_failed: "setJSON D client privateKey dk json custom' = (Inl e', client'') \<longrightarrow>
          client'' = client
          \<or> (fst created = Inl e'
               \<or> (\<exists>uploaded dataLink. fst created = Inr (uploaded, dataLink)
                    \<and> registry_setEntry D privateKey uploaded
                         (extractOptions D jsonOpts (DEFAULT_SET_ENTRY_OPTIONS D)) = Some e'))
            \<and> revisionNumberCache client'' = (revisionNumberCache client)(cacheKey \<mapsto> r)
            \<and> (\<exists>more. more \<noteq> [] \<and> calls client'' = calls client @ more)"
  proof
    assume failed: "setJSON D client privateKey dk json custom' = (Inl e', client'')"
    from json_cases show "client'' = client
          \<or> (fst created = Inl e'
               \<or> (\<exists>uploaded dataLink. fst created = Inr (uploaded, dataLink)
                    \<and> registry_setEntry D privateKey uploaded
                         (extractOptions D jsonOpts (DEFAULT_SET_ENTRY_OPTIONS D)) = Some e'))
            \<and> revisionNumberCache client'' = (revisionNumberCache client)(cacheKey \<mapsto> r)
            \<and> (\<exists>more. more \<noteq> [] \<and> calls client'' = calls client @ more)"
    proof (elim disjE exE conjE)
      fix e0 assume "setJSON D client privateKey dk json custom' = (Inl e0, client)"
      with failed show ?thesis by simp
    next
      fix f uploaded dataLink
      assume "setJSON D client privateKey dk json custom' =
          (Inr (json, formatSkylink D dataLink),
           client\<lparr>revisionNumberCache := (revisionNumberCache client)(cacheKey \<mapsto> r + 1),
                  calls := calls client @ [UploadFile f, SetEntry privateKey uploaded]\<rparr>)"
      with failed show ?thesis by simp
    next
      fix e0 more
      assume "fst created = Inl e0"
        and more: "more \<noteq> []"
        and "setJSON D client privateKey dk json custom' =
          (Inl e0,
           client\<lparr>revisionNumberCache := (revisionNumberCache client)(cacheKey \<mapsto> r),
                  calls := calls client @ more\<rparr>)"
      with failed have "fst created = Inl e'"
        and cache: "revisionNumberCache client'' = (revisionNumberCache client)(cacheKey \<mapsto> r)"
        and made: "calls client'' = calls client @ more"
        by auto
      then show ?thesis using more by blast
    next
      fix e0 more uploaded dataLink
      assume "fst created = Inr (uploaded, dataLink)"
        and "registry_setEntry D privateKey uploaded
               (extractOptions D jsonOpts (DEFAULT_SET_ENTRY_OPTIONS D)) = Some e0"
        and more: "more \<noteq> []"
        and "setJSON D client privateKey dk json custom' =
          (Inl e0,
           client\<lparr>revisionNumberCache := (revisionNumberCache client)(cacheKey \<mapsto> r),
                  calls := calls client @ more\<rparr>)"
      with failed have "fst created = Inr (uploaded, dataLink)"
        and "registry_setEntry D privateKey uploaded
               (extractOptions D jsonOpts (DEFAULT_SET_ENTRY_OPTIONS D)) = Some e'"
        and cache: "revisionNumberCache client'' = (revisionNumberCache client)(cacheKey \<mapsto> r)"
        and made: "calls client'' = calls client @ more"
        by auto
      then show ?thesis using more by blast
    qed
  qed
  show ?thesis
    using fresh entryData_ok entryData_failed json_ok json_failed as_before by blast
qed

lemmas example_run =
  setEntryData_def setJSON_def getOrCreateRegistryEntry_def incrementCachedRevision_eq Let_def
  record_call_def revert_and_throw_def decrementCachedRevision_def publicKeyOf_def
  getCacheKey_def cachedOrUncached_def UNCACHED_REVISION_NUMBER_def example_deps_def
  offline_deps_def client_at_def new_client_def option_value_def spread_def
  DEFAULT_SET_ENTRY_DATA_OPTIONS_def DEFAULT_SET_JSON_OPTIONS_def DEFAULT_GET_JSON_OPTIONS_def
  validateEntryData_def MAX_ENTRY_LENGTH_def areEqualUint8Arrays_def DELETION_ENTRY_DATA_def
  JSON_RESPONSE_VERSION_def not_replicate

lemma example_write_first:
  "fst (setEntryData example_deps new_client ''00'' ''k'' [1, 2, 3] None) = Inr [1, 2, 3]"
  "revisionNumberCache (snd (setEntryData example_deps new_client ''00'' ''k'' [1, 2, 3] None))
     = [''ab/k'' \<mapsto> 0]"
  by (simp_all add: example_run)

lemma example_write_next:
  "fst (setJSON example_deps (client_at 0) ''00'' ''k'' (JObject []) None)
     = Inr (JObject [], ''sia://sia://link'')"
  "revisionNumberCache (snd (setJSON example_deps (client_at 0) ''00'' ''k'' (JObject []) None))
     = [''ab/k'' \<mapsto> 1]"
  by (simp_all add: example_run)

lemma example_write_refused:
  "fst (setEntryData offline_deps new_client ''00'' ''k'' [1, 2, 3] None) = Inl (Thrown ''offline'')"
  "revisionNumberCache (snd (setEntryData offline_deps new_client ''00'' ''k'' [1, 2, 3] None))
     = [''ab/k'' \<mapsto> - 1]"
  "fst (setJSON offline_deps (client_at 4) ''00'' ''k'' (JObject []) None) = Inl (Thrown ''offline'')"
  "revisionNumberCache (snd (setJSON offline_deps (client_at 4) ''00'' ''k'' (JObject []) None))
     = [''ab/k'' \<mapsto> 4]"
  "snd (setEntryData offline_deps new_client ''00'' ''k'' [1, 2, 3] None) \<noteq> new_client"
  "snd (setJSON offline_deps (client_at 4) ''00'' ''k'' (JObject []) None) \<noteq> client_at 4"
  by (simp_all add: example_run)

lemma offline_publicKeyOf: "publicKeyOf offline_deps ''00'' = Inr ''ab''"
  by (simp add: publicKeyOf_def offline_deps_def example_deps_def)

theorem write_reserves_next_revision_witness:
  "fst (setEntryData example_deps new_client ''00'' ''k'' [1, 2, 3] None) = Inr [1, 2, 3]
   \<and> revisionNumberCache (snd (setEntryData example_deps new_client ''00'' ''k'' [1, 2, 3] None))
       = [''ab/k'' \<mapsto> 0]
   \<and> calls (snd (setEntryData example_deps new_client ''00'' ''k'' [1, 2, 3] None))
       = [SetEntry ''00'' \<lparr>dataKey = ''k'', data = [1, 2, 3], revision = Some 0\<rparr>]
   \<and> fst (setJSON example_deps (client_at 0) ''00'' ''k'' (JObject []) None)
       = Inr (JObject [], ''sia://sia://link'')
   \<and> revisionNumberCache (snd (setJSON example_deps (client_at 0) ''00'' ''k'' (JObject []) None))
       = [''ab/k'' \<mapsto> 1]
   \<and> fst (setEntryData offline_deps new_client ''00'' ''k'' [1, 2, 3] None)
       = Inl (Thrown ''offline'')
   \<and> revisionNumberCache (snd (setEntryData offline_deps new_client ''00'' ''k'' [1, 2, 3] None))
       = [''ab/k'' \<mapsto> - 1]
   \<and> fst (setJSON offline_deps (client_at 4) ''00'' ''k'' (JObject []) None)
       = Inl (Thrown ''offline'')
   \<and> revisionNumberCache (snd (setJSON offline_deps (client_at 4) ''00'' ''k'' (JObject []) None))
       = [''ab/k'' \<mapsto> 4]"
proof -
  have pair: "fst p = a \<Longrightarrow> p = (a, snd p)" for p :: "'a \<times> 'b" and a
    by auto
  have uncached: "cachedOrUncached (revisionNumberCache new_client) ''ab/k'' = - 1"
    "revisionNumberCache new_client ''ab/k'' = None"
    "revisionNumberCache new_client = Map.empty" "calls new_client = []"
    by (simp_all add: new_client_def cachedOrUncached_def UNCACHED_REVISION_NUMBER_def)
  have cached: "cachedOrUncached (revisionNumberCache (client_at n)) ''ab/k'' = n"
    "revisionNumberCache (client_at n) = [''ab/k'' \<mapsto> n]" for n
    by (simp_all add: client_at_def new_client_def cachedOrUncached_def)
  note first = write_reserves_next_revision[where D = example_deps and privateKey = "''00''"
      and publicKey = "''ab''" and dk = "''k''" and cacheKey = "''ab/k''" and r = "- 1"
      and client = new_client and bytes = "[1, 2, 3]" and custom = None and v = "[1, 2, 3]"
      and client' = "snd (setEntryData example_deps new_client ''00'' ''k'' [1, 2, 3] None)",
      OF example_publicKeyOf example_getCacheKey [symmetric] uncached(1) [symmetric]
        refl refl refl refl refl]
  note next_one = write_reserves_next_revision[where D = example_deps and privateKey = "''00''"
      and publicKey = "''ab''" and dk = "''k''" and cacheKey = "''ab/k''" and r = 0
      and client = "client_at 0" and json = "JObject []" and custom' = None
      and w = "(JObject [], ''sia://sia://link'')"
      and client'' = "snd (setJSON example_deps (client_at 0) ''00'' ''k'' (JObject []) None)",
      OF example_publicKeyOf example_getCacheKey [symmetric] cached(1) [symmetric]
        refl refl refl refl refl]
  note refused = write_reserves_next_revision[where D = offline_deps and privateKey = "''00''"
      and publicKey = "''ab''" and dk = "''k''" and cacheKey = "''ab/k''" and r = "- 1"
      and client = new_client and bytes = "[1, 2, 3]" and custom = None
      and e = "Thrown ''offline''"
      and client' = "snd (setEntryData offline_deps new_client ''00'' ''k'' [1, 2, 3] None)",
      OF offline_publicKeyOf example_getCacheKey [symmetric] uncached(1) [symmetric]
        refl refl refl refl refl]
  note refused_json = write_reserves_next_revision[where D = offline_deps and privateKey = "''00''"
      and publicKey = "''ab''" and dk = "''k''" and cacheKey = "''ab/k''" and r = 4
      and client = "client_at 4" and json = "JObject []" and custom' = None
      and e' = "Thrown ''offline''"
      and client'' = "snd (setJSON offline_deps (client_at 4) ''00'' ''k'' (JObject []) None)",
      OF offline_publicKeyOf example_getCacheKey [symmetric] cached(1) [symmetric]
        refl refl refl refl refl]
  show ?thesis
    using first next_one refused refused_json
      pair[OF example_write_first(1)] pair[OF example_write_next(1)]
      pair[OF example_write_refused(1)] pair[OF example_write_refused(3)]
      example_write_first(1) example_write_next(1) example_write_refused(1, 3, 5, 6)
    by (simp add: uncached cached)
qed

lemmas overlap_run =
  overlap_first_def overlap_second_def overlap_first_resumed_def overlap_third_def
  setEntryData_start_def setEntryData_resume_def picky_deps_def

text \<open>
  C1 as the claim states it fails twice. After the refused first write of a pair the cache
  holds the entry \<open>-1\<close> where there was no entry. And when writes overlap, nothing keeps
  them apart: the first write reserves 0 and awaits the registry; the second reserves 1 and
  succeeds; the registry refuses the first, whose rollback leaves 0 cached, neither what it
  found nor what the second stored; the third write then hands the registry revision 1 a
  second time.
\<close>

theorem write_rollback_not_exact:
  "revisionNumberCache new_client ''ab/k'' = None
   \<and> fst (setEntryData offline_deps new_client ''00'' ''k'' [1, 2, 3] None) = Inl (Thrown ''offline'')
   \<and> revisionNumberCache (snd (setEntryData offline_deps new_client ''00'' ''k'' [1, 2, 3] None))
        ''ab/k'' = Some (- 1)
   \<and> fst overlap_second = Inr [2]
   \<and> revisionNumberCache (snd overlap_second) ''ab/k'' = Some 1
   \<and> fst overlap_first_resumed = Inl (Thrown ''offline'')
   \<and> revisionNumberCache (snd overlap_first_resumed) ''ab/k'' = Some 0
   \<and> fst overlap_third = Inr [3]
   \<and> calls (snd overlap_third)
       = [SetEntry ''00'' \<lparr>dataKey = ''k'', data = [1], revision = Some 0\<rparr>,
          SetEntry ''00'' \<lparr>dataKey = ''k'', data = [2], revision = Some 1\<rparr>,
          SetEntry ''00'' \<lparr>dataKey = ''k'', data = [3], revision = Some 1\<rparr>]"
  by (simp add: overlap_run example_run)

section \<open>The cache on the read path\<close>

lemma lookup_eq:
  assumes "registry_getEntry D publicKey dk opts = Inr (Some entry)"
    and "revision entry = Some v"
  shows "getSkyDBRegistryEntryAndUpdateCache D client publicKey dk opts =
    (if (case revisionNumberCache client (getCacheKey publicKey dk) of
           None \<Rightarrow> False | Some c \<Rightarrow> c \<noteq> 0 \<and> c > v)
     then (Inl HigherRevisionCached, client\<lparr>calls := calls client @ [GetEntry publicKey dk]\<rparr>)
     else (if data entry = replicate (RAW_SKYLINK_SIZE D) 0 then Inr None else Inr (Some entry),
           client\<lparr>revisionNumberCache := (revisionNumberCache client)(getCacheKey publicKey dk \<mapsto> v),
                  calls := calls client @ [GetEntry publicKey dk]\<rparr>))"
  using assms
  by (simp add: getSkyDBRegistryEntryAndUpdateCache_def Let_def record_call_def
      wasRegistryEntryDeleted_def areEqualUint8Arrays_def EMPTY_SKYLINK_def)

lemma lookup_thrown:
  "registry_getEntry D publicKey dk opts = Inl e \<Longrightarrow>
   getSkyDBRegistryEntryAndUpdateCache D client publicKey dk opts
     = (Inl e, client\<lparr>calls := calls client @ [GetEntry publicKey dk]\<rparr>)"
  by (simp add: getSkyDBRegistryEntryAndUpdateCache_def Let_def record_call_def)

lemma lookup_absent:
  "registry_getEntry D publicKey dk opts = Inr None \<Longrightarrow>
   getSkyDBRegistryEntryAndUpdateCache D client publicKey dk opts
     = (Inr None, client\<lparr>calls := calls client @ [GetEntry publicKey dk]\<rparr>)"
  by (simp add: getSkyDBRegistryEntryAndUpdateCache_def Let_def record_call_def)

text \<open>What each read does once the lookup has returned.\<close>

lemma getJSON_after_lookup:
  assumes "validatePublicKey D publicKey = None"
    and "validateOptionalObject D custom (DEFAULT_GET_JSON_OPTIONS D) = None"
    and "getSkyDBRegistryEntryAndUpdateCache D client publicKey dk
           (extractOptions D (DEFAULT_GET_JSON_OPTIONS D ++ customOptions client ++ spread custom)
              (DEFAULT_GET_ENTRY_OPTIONS D)) = (res, client1)"
  shows "(\<forall>e. res = Inl e \<longrightarrow> getJSON D client publicKey dk custom = (Inl e, client1))"
    and "res = Inr None \<longrightarrow> getJSON D client publicKey dk custom = (Inr (None, None), client1)"
    and "revisionNumberCache (snd (getJSON D client publicKey dk custom))
          = revisionNumberCache client1"
  using assms
  by (auto simp add: getJSON_def Let_def record_call_def
      split: option.splits sum.splits prod.splits bool.splits)

lemma getRawBytes_after_lookup:
  assumes "validatePublicKey D publicKey = None"
    and "validateOptionalObject D custom (DEFAULT_GET_JSON_OPTIONS D) = None"
    and "getSkyDBRegistryEntryAndUpdateCache D client publicKey dk
           (extractOptions D (DEFAULT_GET_JSON_OPTIONS D ++ customOptions client ++ spread custom)
              (DEFAULT_GET_ENTRY_OPTIONS D)) = (res, client1)"
  shows "(\<forall>e. res = Inl e \<longrightarrow> getRawBytes D client publicKey dk custom = (Inl e, client1))"
    and "res = Inr None \<longrightarrow> getRawBytes D client publicKey dk custom = (Inr (None, None), client1)"
    and "revisionNumberCache (snd (getRawBytes D client publicKey dk custom))
          = revisionNumberCache client1"
  using assms
  by (auto simp add: getRawBytes_def Let_def record_call_def
      split: option.splits sum.splits prod.splits bool.splits)

lemma getEntryData_after_lookup:
  assumes "validatePublicKey D publicKey = None"
    and "validateOptionalObject D custom (DEFAULT_GET_ENTRY_OPTIONS D) = None"
    and "getSkyDBRegistryEntryAndUpdateCache D client publicKey dk
           (DEFAULT_GET_ENTRY_OPTIONS D ++ customOptions client ++ spread custom) = (res, client1)"
  shows "(\<forall>e. res = Inl e \<longrightarrow> getEntryData D client publicKey dk custom = (Inl e, client1))"
    and "res = Inr None \<longrightarrow> getEntryData D client publicKey dk custom = (Inr None, client1)"
    and "revisionNumberCache (snd (getEntryData D client publicKey dk custom))
          = revisionNumberCache client1"
  using assms
  by (auto simp add: getEntryData_def Let_def split: option.splits sum.splits prod.splits)


text \<open>
  C2. Take a read (\<open>getJSON\<close>, \<open>getEntryData\<close>, \<open>getRawBytes\<close>) whose input validation
  passes and to which the registry returns an entry of revision \<open>v\<close>, an unsigned integer.
  If the cache holds \<open>r\<close> for the pair and \<open>v < r\<close>, the read fails with the error "a higher
  revision number is already cached" and the cache is as before, so still holds \<open>r\<close>.
  Otherwise the cache is the one before with \<open>v\<close> stored for the pair.
\<close>

theorem read_guards_cached_revision:
  assumes "validatePublicKey D publicKey = None"
    and "validateOptionalObject D custom (DEFAULT_GET_JSON_OPTIONS D) = None"
    and "validateOptionalObject D custom (DEFAULT_GET_ENTRY_OPTIONS D) = None"
    and "jsonOpts = extractOptions D
           (DEFAULT_GET_JSON_OPTIONS D ++ customOptions client ++ spread custom)
           (DEFAULT_GET_ENTRY_OPTIONS D)"
    and "entryOpts = DEFAULT_GET_ENTRY_OPTIONS D ++ customOptions client ++ spread custom"
    and "registry_getEntry D publicKey dk jsonOpts = Inr (Some entry)"
    and "registry_getEntry D publicKey dk entryOpts = Inr (Some entry)"
    and "revision entry = Some v"
    and "0 \<le> v"
    and "cacheKey = getCacheKey publicKey dk"
  shows
    "(revisionNumberCache client cacheKey = Some r \<and> v < r \<longrightarrow>
        fst (getJSON D client publicKey dk custom) = Inl HigherRevisionCached
        \<and> revisionNumberCache (snd (getJSON D client publicKey dk custom))
            = revisionNumberCache client
        \<and> fst (getEntryData D client publicKey dk custom) = Inl HigherRevisionCached
        \<and> revisionNumberCache (snd (getEntryData D client publicKey dk custom))
            = revisionNumberCache client
        \<and> fst (getRawBytes D client publicKey dk custom) = Inl HigherRevisionCached
        \<and> revisionNumberCache (snd (getRawBytes D client publicKey dk custom))
            = revisionNumberCache client)
     \<and> (\<not> (\<exists>c. revisionNumberCache client cacheKey = Some c \<and> v < c) \<longrightarrow>
        revisionNumberCache (snd (getJSON D client publicKey dk custom))
            = (revisionNumberCache client)(cacheKey \<mapsto> v)
        \<and> revisionNumberCache (snd (getEntryData D client publicKey dk custom))
            = (revisionNumberCache client)(cacheKey \<mapsto> v)
        \<and> revisionNumberCache (snd (getRawBytes D client publicKey dk custom))
            = (revisionNumberCache client)(cacheKey \<mapsto> v))"
proof -
  let ?stale = "client\<lparr>calls := calls client @ [GetEntry publicKey dk]\<rparr>"
  have higher: "getSkyDBRegistryEntryAndUpdateCache D client publicKey dk opts
      = (Inl HigherRevisionCached, ?stale)"
    if "registry_getEntry D publicKey dk opts = Inr (Some entry)"
      and "revisionNumberCache client cacheKey = Some r" and "v < r" for opts
    using that assms(8,9,10) lookup_eq[of D publicKey dk opts entry v client] by simp
  have stored: "\<exists>res client1. getSkyDBRegistryEntryAndUpdateCache D client publicKey dk opts
      = (res, client1)
      \<and> revisionNumberCache client1 = (revisionNumberCache client)(cacheKey \<mapsto> v)"
    if "registry_getEntry D publicKey dk opts = Inr (Some entry)"
      and "\<not> (\<exists>c. revisionNumberCache client cacheKey = Some c \<and> v < c)" for opts
    using that assms(8,10) lookup_eq[of D publicKey dk opts entry v client]
    by (cases "revisionNumberCache client cacheKey") auto
  have first: "fst (getJSON D client publicKey dk custom) = Inl HigherRevisionCached
        \<and> revisionNumberCache (snd (getJSON D client publicKey dk custom))
            = revisionNumberCache client
        \<and> fst (getEntryData D client publicKey dk custom) = Inl HigherRevisionCached
        \<and> revisionNumberCache (snd (getEntryData D client publicKey dk custom))
            = revisionNumberCache client
        \<and> fst (getRawBytes D client publicKey dk custom) = Inl HigherRevisionCached
        \<and> revisionNumberCache (snd (getRawBytes D client publicKey dk custom))
            = revisionNumberCache client"
    if "revisionNumberCache client cacheKey = Some r" and "v < r"
    using getJSON_after_lookup(1)[OF assms(1,2) higher[OF assms(6) that, unfolded assms(4)]]
      getRawBytes_after_lookup(1)[OF assms(1,2) higher[OF assms(6) that, unfolded assms(4)]]
      getEntryData_after_lookup(1)[OF assms(1,3) higher[OF assms(7) that, unfolded assms(5)]]
    by simp
  have second: "revisionNumberCache (snd (getJSON D client publicKey dk custom))
            = (revisionNumberCache client)(cacheKey \<mapsto> v)
        \<and> revisionNumberCache (snd (getEntryData D client publicKey dk custom))
            = (revisionNumberCache client)(cacheKey \<mapsto> v)
        \<and> revisionNumberCache (snd (getRawBytes D client publicKey dk custom))
            = (revisionNumberCache client)(cacheKey \<mapsto> v)"
    if no: "\<not> (\<exists>c. revisionNumberCache client cacheKey = Some c \<and> v < c)"
  proof -
    obtain resJ clientJ where j: "getSkyDBRegistryEntryAndUpdateCache D client publicKey dk
           (extractOptions D (DEFAULT_GET_JSON_OPTIONS D ++ customOptions client ++ spread custom)
              (DEFAULT_GET_ENTRY_OPTIONS D)) = (resJ, clientJ)"
      and cj: "revisionNumberCache clientJ = (revisionNumberCache client)(cacheKey \<mapsto> v)"
      using stored[OF assms(6) no] unfolding assms(4) by blast
    obtain resE clientE where e: "getSkyDBRegistryEntryAndUpdateCache D client publicKey dk
           (DEFAULT_GET_ENTRY_OPTIONS D ++ customOptions client ++ spread custom) = (resE, clientE)"
      and ce: "revisionNumberCache clientE = (revisionNumberCache client)(cacheKey \<mapsto> v)"
      using stored[OF assms(7) no] unfolding assms(5) by blast
    show ?thesis
      using getJSON_after_lookup(3)[OF assms(1,2) j] getRawBytes_after_lookup(3)[OF assms(1,2) j]
        getEntryData_after_lookup(3)[OF assms(1,3) e] cj ce
      by simp
  qed
  show ?thesis using first second by blast
qed


lemma deps_holding_simps:
  "validatePublicKey (deps_holding entry) publicKey = None"
  "validateOptionalObject (deps_holding entry) custom model = None"
  "registry_getEntry (deps_holding entry) publicKey dk opts = Inr (Some entry)"
  "RAW_SKYLINK_SIZE (deps_holding entry) = 34"
  "BASE64_ENCODED_SKYLINK_SIZE (deps_holding entry) = 46"
  by (simp_all add: deps_holding_def example_deps_def)

lemma example_entry_simps:
  "revision (example_entry bytes v) = Some v"
  "data (example_entry bytes v) = bytes"
  by (simp_all add: example_entry_def)

lemma client_at_cache:
  "revisionNumberCache (client_at n) = [''ab/k'' \<mapsto> n]"
  "revisionNumberCache (client_at n) ''ab/k'' = Some n"
  "revisionNumberCache new_client = Map.empty"
  by (simp_all add: client_at_def new_client_def)

theorem read_guards_cached_revision_witness:
  "fst (getJSON (deps_holding (example_entry (replicate 34 1) 3)) (client_at 5) ''ab'' ''k'' None)
     = Inl HigherRevisionCached
   \<and> revisionNumberCache
        (snd (getJSON (deps_holding (example_entry (replicate 34 1) 3)) (client_at 5) ''ab'' ''k'' None))
       = [''ab/k'' \<mapsto> 5]
   \<and> fst (getEntryData (deps_holding (example_entry (replicate 34 1) 3)) (client_at 5) ''ab'' ''k'' None)
     = Inl HigherRevisionCached
   \<and> fst (getRawBytes (deps_holding (example_entry (replicate 34 1) 3)) (client_at 5) ''ab'' ''k'' None)
     = Inl HigherRevisionCached
   \<and> revisionNumberCache
        (snd (getJSON (deps_holding (example_entry (replicate 34 1) 3)) (client_at 2) ''ab'' ''k'' None))
       = [''ab/k'' \<mapsto> 3]
   \<and> revisionNumberCache
        (snd (getEntryData (deps_holding (example_entry (replicate 34 1) 3)) new_client ''ab'' ''k'' None))
       = [''ab/k'' \<mapsto> 3]"
proof -
  let ?D = "deps_holding (example_entry (replicate 34 1) 3)"
  note at = read_guards_cached_revision[where D = ?D and publicKey = "''ab''" and dk = "''k''"
      and custom = None and entry = "example_entry (replicate 34 1) 3" and v = 3
      and cacheKey = "''ab/k''",
      OF deps_holding_simps(1) deps_holding_simps(2) deps_holding_simps(2) refl refl
        deps_holding_simps(3) deps_holding_simps(3) example_entry_simps(1) _
        example_getCacheKey [symmetric]]
  show ?thesis
    using at[where client = "client_at 5" and r = 5] at[where client = "client_at 2" and r = 0]
      at[where client = new_client and r = 0]
    by (simp add: client_at_cache)
qed

text \<open>
  C3, as the code has it. Take a read whose input validation passes. If the registry throws,
  the read throws the same error and the cache is as before. If the registry has no entry,
  the read returns "no data" and the cache is as before. If the registry returns an entry of
  revision \<open>v\<close> and the cache holds no revision for the pair that is greater than \<open>v\<close> (and
  not \<open>0\<close>, which the guard takes for no revision), the cache is the one before with \<open>v\<close>
  stored for the pair, whatever the read does next; when the entry's data is the deletion
  sentinel the read returns "no data", with that cache.
\<close>

theorem read_updates_cache_when_found:
  assumes "validatePublicKey D publicKey = None"
    and "validateOptionalObject D custom (DEFAULT_GET_JSON_OPTIONS D) = None"
    and "validateOptionalObject D custom (DEFAULT_GET_ENTRY_OPTIONS D) = None"
    and "jsonOpts = extractOptions D
           (DEFAULT_GET_JSON_OPTIONS D ++ customOptions client ++ spread custom)
           (DEFAULT_GET_ENTRY_OPTIONS D)"
    and "entryOpts = DEFAULT_GET_ENTRY_OPTIONS D ++ customOptions client ++ spread custom"
    and "cacheKey = getCacheKey publicKey dk"
  shows
    "(registry_getEntry D publicKey dk jsonOpts = Inl e \<longrightarrow>
        fst (getJSON D client publicKey dk custom) = Inl e
        \<and> revisionNumberCache (snd (getJSON D client publicKey dk custom))
            = revisionNumberCache client
        \<and> fst (getRawBytes D client publicKey dk custom) = Inl e
        \<and> revisionNumberCache (snd (getRawBytes D client publicKey dk custom))
            = revisionNumberCache client)
     \<and> (registry_getEntry D publicKey dk entryOpts = Inl e \<longrightarrow>
        fst (getEntryData D client publicKey dk custom) = Inl e
        \<and> revisionNumberCache (snd (getEntryData D client publicKey dk custom))
            = revisionNumberCache client)
     \<and> (registry_getEntry D publicKey dk jsonOpts = Inr None \<longrightarrow>
        fst (getJSON D client publicKey dk custom) = Inr (None, None)
        \<and> revisionNumberCache (snd (getJSON D client publicKey dk custom))
            = revisionNumberCache client
        \<and> fst (getRawBytes D client publicKey dk custom) = Inr (None, None)
        \<and> revisionNumberCache (snd (getRawBytes D client publicKey dk custom))
            = revisionNumberCache client)
     \<and> (registry_getEntry D publicKey dk entryOpts = Inr None \<longrightarrow>
        fst (getEntryData D client publicKey dk custom) = Inr None
        \<and> revisionNumberCache (snd (getEntryData D client publicKey dk custom))
            = revisionNumberCache client)
     \<and> (registry_getEntry D publicKey dk jsonOpts = Inr (Some entry) \<and> revision entry = Some v
          \<and> \<not> (\<exists>c. revisionNumberCache client cacheKey = Some c \<and> c \<noteq> 0 \<and> v < c) \<longrightarrow>
        revisionNumberCache (snd (getJSON D client publicKey dk custom))
            = (revisionNumberCache client)(cacheKey \<mapsto> v)
        \<and> revisionNumberCache (snd (getRawBytes D client publicKey dk custom))
            = (revisionNumberCache client)(cacheKey \<mapsto> v)
        \<and> (data entry = replicate (RAW_SKYLINK_SIZE D) 0 \<longrightarrow>
             fst (getJSON D client publicKey dk custom) = Inr (None, None)
             \<and> fst (getRawBytes D client publicKey dk custom) = Inr (None, None)))
     \<and> (registry_getEntry D publicKey dk entryOpts = Inr (Some entry) \<and> revision entry = Some v
          \<and> \<not> (\<exists>c. revisionNumberCache client cacheKey = Some c \<and> c \<noteq> 0 \<and> v < c) \<longrightarrow>
        revisionNumberCache (snd (getEntryData D client publicKey dk custom))
            = (revisionNumberCache client)(cacheKey \<mapsto> v)
        \<and> (data entry = replicate (RAW_SKYLINK_SIZE D) 0 \<longrightarrow>
             fst (getEntryData D client publicKey dk custom) = Inr None))"
proof -
  let ?called = "client\<lparr>calls := calls client @ [GetEntry publicKey dk]\<rparr>"
  let ?stored = "client\<lparr>revisionNumberCache := (revisionNumberCache client)(cacheKey \<mapsto> v),
      calls := calls client @ [GetEntry publicKey dk]\<rparr>"
  have found: "getSkyDBRegistryEntryAndUpdateCache D client publicKey dk opts
      = (if data entry = replicate (RAW_SKYLINK_SIZE D) 0 then Inr None else Inr (Some entry), ?stored)"
    if "registry_getEntry D publicKey dk opts = Inr (Some entry)" and "revision entry = Some v"
      and "\<not> (\<exists>c. revisionNumberCache client cacheKey = Some c \<and> c \<noteq> 0 \<and> v < c)" for opts
    using that assms(6) lookup_eq[of D publicKey dk opts entry v client]
    by (cases "revisionNumberCache client cacheKey") auto
  have thrown_json: "fst (getJSON D client publicKey dk custom) = Inl e
        \<and> revisionNumberCache (snd (getJSON D client publicKey dk custom))
            = revisionNumberCache client
        \<and> fst (getRawBytes D client publicKey dk custom) = Inl e
        \<and> revisionNumberCache (snd (getRawBytes D client publicKey dk custom))
            = revisionNumberCache client"
    if "registry_getEntry D publicKey dk jsonOpts = Inl e"
    using getJSON_after_lookup(1)[OF assms(1,2) lookup_thrown[OF that, unfolded assms(4)]]
      getRawBytes_after_lookup(1)[OF assms(1,2) lookup_thrown[OF that, unfolded assms(4)]]
    by simp
  have thrown_entry: "fst (getEntryData D client publicKey dk custom) = Inl e
        \<and> revisionNumberCache (snd (getEntryData D client publicKey dk custom))
            = revisionNumberCache client"
    if "registry_getEntry D publicKey dk entryOpts = Inl e"
    using getEntryData_after_lookup(1)[OF assms(1,3) lookup_thrown[OF that, unfolded assms(5)]]
    by simp
  have absent_json: "fst (getJSON D client publicKey dk custom) = Inr (None, None)
        \<and> revisionNumberCache (snd (getJSON D client publicKey dk custom))
            = revisionNumberCache client
        \<and> fst (getRawBytes D client publicKey dk custom) = Inr (None, None)
        \<and> revisionNumberCache (snd (getRawBytes D client publicKey dk custom))
            = revisionNumberCache client"
    if "registry_getEntry D publicKey dk jsonOpts = Inr None"
    using getJSON_after_lookup(2)[OF assms(1,2) lookup_absent[OF that, unfolded assms(4)]]
      getRawBytes_after_lookup(2)[OF assms(1,2) lookup_absent[OF that, unfolded assms(4)]]
    by simp
  have absent_entry: "fst (getEntryData D client publicKey dk custom) = Inr None
        \<and> revisionNumberCache (snd (getEntryData D client publicKey dk custom))
            = revisionNumberCache client"
    if "registry_getEntry D publicKey dk entryOpts = Inr None"
    using getEntryData_after_lookup(2)[OF assms(1,3) lookup_absent[OF that, unfolded assms(5)]]
    by simp
  have found_json: "revisionNumberCache (snd (getJSON D client publicKey dk custom))
            = (revisionNumberCache client)(cacheKey \<mapsto> v)
        \<and> revisionNumberCache (snd (getRawBytes D client publicKey dk custom))
            = (revisionNumberCache client)(cacheKey \<mapsto> v)
        \<and> (data entry = replicate (RAW_SKYLINK_SIZE D) 0 \<longrightarrow>
             fst (getJSON D client publicKey dk custom) = Inr (None, None)
             \<and> fst (getRawBytes D client publicKey dk custom) = Inr (None, None))"
    if "registry_getEntry D publicKey dk jsonOpts = Inr (Some entry)" and "revision entry = Some v"
      and "\<not> (\<exists>c. revisionNumberCache client cacheKey = Some c \<and> c \<noteq> 0 \<and> v < c)"
    using getJSON_after_lookup(2,3)[OF assms(1,2) found[OF that, unfolded assms(4)]]
      getRawBytes_after_lookup(2,3)[OF assms(1,2) found[OF that, unfolded assms(4)]]
    by simp
  have found_entry: "revisionNumberCache (snd (getEntryData D client publicKey dk custom))
            = (revisionNumberCache client)(cacheKey \<mapsto> v)
        \<and> (data entry = replicate (RAW_SKYLINK_SIZE D) 0 \<longrightarrow>
             fst (getEntryData D client publicKey dk custom) = Inr None)"
    if "registry_getEntry D publicKey dk entryOpts = Inr (Some entry)" and "revision entry = Some v"
      and "\<not> (\<exists>c. revisionNumberCache client cacheKey = Some c \<and> c \<noteq> 0 \<and> v < c)"
    using getEntryData_after_lookup(2,3)[OF assms(1,3) found[OF that, unfolded assms(5)]]
    by simp
  show ?thesis
    using thrown_json thrown_entry absent_json absent_entry found_json found_entry by blast
qed


lemma example_reads_simps:
  "validatePublicKey example_deps publicKey = None"
  "validateOptionalObject example_deps custom model = None"
  "registry_getEntry example_deps publicKey dk opts = Inr None"
  "validatePublicKey unreachable_deps publicKey = None"
  "validateOptionalObject unreachable_deps custom model = None"
  "registry_getEntry unreachable_deps publicKey dk opts = Inl (Thrown ''offline'')"
  by (simp_all add: unreachable_deps_def example_deps_def)

theorem read_updates_cache_when_found_witness:
  "fst (getJSON unreachable_deps (client_at 2) ''ab'' ''k'' None) = Inl (Thrown ''offline'')
   \<and> revisionNumberCache (snd (getJSON unreachable_deps (client_at 2) ''ab'' ''k'' None))
       = [''ab/k'' \<mapsto> 2]
   \<and> fst (getEntryData unreachable_deps (client_at 2) ''ab'' ''k'' None) = Inl (Thrown ''offline'')
   \<and> revisionNumberCache (snd (getEntryData unreachable_deps (client_at 2) ''ab'' ''k'' None))
       = [''ab/k'' \<mapsto> 2]
   \<and> fst (getRawBytes example_deps (client_at 2) ''ab'' ''k'' None) = Inr (None, None)
   \<and> revisionNumberCache (snd (getRawBytes example_deps (client_at 2) ''ab'' ''k'' None))
       = [''ab/k'' \<mapsto> 2]
   \<and> fst (getEntryData example_deps (client_at 2) ''ab'' ''k'' None) = Inr None
   \<and> revisionNumberCache (snd (getEntryData example_deps (client_at 2) ''ab'' ''k'' None))
       = [''ab/k'' \<mapsto> 2]
   \<and> fst (getJSON (deps_holding (example_entry (replicate 34 0) 3)) (client_at 2) ''ab'' ''k'' None)
       = Inr (None, None)
   \<and> revisionNumberCache
        (snd (getJSON (deps_holding (example_entry (replicate 34 0) 3)) (client_at 2) ''ab'' ''k'' None))
       = [''ab/k'' \<mapsto> 3]
   \<and> fst (getEntryData (deps_holding (example_entry (replicate 34 0) 3)) (client_at 2) ''ab'' ''k'' None)
       = Inr None
   \<and> revisionNumberCache
        (snd (getEntryData (deps_holding (example_entry (replicate 34 0) 3)) (client_at 2) ''ab'' ''k'' None))
       = [''ab/k'' \<mapsto> 3]"
proof -
  let ?D = "deps_holding (example_entry (replicate 34 0) 3)"
  note unreachable = read_updates_cache_when_found[where D = unreachable_deps
      and publicKey = "''ab''" and dk = "''k''" and custom = None and client = "client_at 2"
      and cacheKey = "''ab/k''" and e = "Thrown ''offline''",
      OF example_reads_simps(4) example_reads_simps(5) example_reads_simps(5) refl refl
        example_getCacheKey [symmetric]]
  note absent = read_updates_cache_when_found[where D = example_deps
      and publicKey = "''ab''" and dk = "''k''" and custom = None and client = "client_at 2"
      and cacheKey = "''ab/k''",
      OF example_reads_simps(1) example_reads_simps(2) example_reads_simps(2) refl refl
        example_getCacheKey [symmetric]]
  note deleted = read_updates_cache_when_found[where D = ?D
      and publicKey = "''ab''" and dk = "''k''" and custom = None and client = "client_at 2"
      and cacheKey = "''ab/k''" and entry = "example_entry (replicate 34 0) 3" and v = 3,
      OF deps_holding_simps(1) deps_holding_simps(2) deps_holding_simps(2) refl refl
        example_getCacheKey [symmetric]]
  show ?thesis
    using unreachable absent deleted
    by (simp add: client_at_cache example_reads_simps deps_holding_simps example_entry_simps)
qed

text \<open>
  C3 as the claim states it fails where the guard of the read fires: the registry returns an
  entry of revision 3 to a client that has revision 5 cached, and the cache is not updated
  to 3; it still holds 5.
\<close>

theorem read_found_cache_not_updated:
  "registry_getEntry (deps_holding (example_entry (replicate 34 1) 3)) ''ab'' ''k''
      (DEFAULT_GET_ENTRY_OPTIONS (deps_holding (example_entry (replicate 34 1) 3))
         ++ customOptions (client_at 5) ++ spread None)
     = Inr (Some (example_entry (replicate 34 1) 3))
   \<and> revision (example_entry (replicate 34 1) 3) = Some 3
   \<and> fst (getEntryData (deps_holding (example_entry (replicate 34 1) 3)) (client_at 5)
          ''ab'' ''k'' None) = Inl HigherRevisionCached
   \<and> revisionNumberCache
        (snd (getEntryData (deps_holding (example_entry (replicate 34 1) 3)) (client_at 5)
          ''ab'' ''k'' None)) ''ab/k'' = Some 5
   \<and> revisionNumberCache
        (snd (getEntryData (deps_holding (example_entry (replicate 34 1) 3)) (client_at 5)
          ''ab'' ''k'' None)) ''ab/k'' \<noteq> Some 3"
proof -
  let ?D = "deps_holding (example_entry (replicate 34 1) 3)"
  have lookup: "getSkyDBRegistryEntryAndUpdateCache ?D (client_at 5) ''ab'' ''k''
      (DEFAULT_GET_ENTRY_OPTIONS ?D ++ customOptions (client_at 5) ++ spread None)
    = (Inl HigherRevisionCached, (client_at 5)\<lparr>calls := calls (client_at 5) @ [GetEntry ''ab'' ''k'']\<rparr>)"
    using lookup_eq[where D = ?D and publicKey = "''ab''" and dk = "''k''"
        and entry = "example_entry (replicate 34 1) 3" and v = 3 and client = "client_at 5",
        OF deps_holding_simps(3) example_entry_simps(1)]
    by (simp add: example_getCacheKey client_at_cache)
  show ?thesis
    using getEntryData_after_lookup(1)[OF deps_holding_simps(1) deps_holding_simps(2) lookup]
    by (simp add: deps_holding_simps example_entry_simps client_at_cache)
qed

section \<open>Parsing the data link\<close>

text \<open>
  C7, as the code has it. For an entry the lookup has returned to \<open>getJSON\<close>, data of the raw
  skylink length or of the legacy base64 length parses to a data link, and data of any other
  length makes \<open>getJSON\<close> throw the validation error for \<open>entry.data\<close> that names the raw
  length. For \<open>getRawBytes\<close>, which parses with \<open>legacy = false\<close>, only data of the raw length
  parses; every other length, the legacy one included, makes it throw that error.
\<close>

theorem parseDataLink_by_length:
  assumes "validatePublicKey D publicKey = None"
    and "validateOptionalObject D custom (DEFAULT_GET_JSON_OPTIONS D) = None"
    and "getSkyDBRegistryEntryAndUpdateCache D client publicKey dk
           (extractOptions D (DEFAULT_GET_JSON_OPTIONS D ++ customOptions client ++ spread custom)
              (DEFAULT_GET_ENTRY_OPTIONS D)) = (Inr (Some entry), client1)"
  shows
    "(length (data entry) = RAW_SKYLINK_SIZE D \<or> length (data entry) = BASE64_ENCODED_SKYLINK_SIZE D
        \<longrightarrow> (\<exists>rawDataLink. parseDataLink D (data entry) True
              = Inr (rawDataLink, formatSkylink D rawDataLink)))
     \<and> (length (data entry) \<noteq> RAW_SKYLINK_SIZE D
          \<and> length (data entry) \<noteq> BASE64_ENCODED_SKYLINK_SIZE D
        \<longrightarrow> getJSON D client publicKey dk custom
              = (Inl (ValidationError ''entry.data'' (LengthBytes (RAW_SKYLINK_SIZE D))), client1))
     \<and> (length (data entry) = RAW_SKYLINK_SIZE D
        \<longrightarrow> parseDataLink D (data entry) False
              = Inr (encodeSkylinkBase64 D (data entry),
                     formatSkylink D (encodeSkylinkBase64 D (data entry))))
     \<and> (length (data entry) \<noteq> RAW_SKYLINK_SIZE D
        \<longrightarrow> getRawBytes D client publicKey dk custom
              = (Inl (ValidationError ''entry.data'' (LengthBytes (RAW_SKYLINK_SIZE D))), client1))"
  using assms
  by (simp add: parseDataLink_def getJSON_def getRawBytes_def Let_def)

lemma example_lookup:
  assumes "bytes \<noteq> replicate 34 0"
  shows "getSkyDBRegistryEntryAndUpdateCache (deps_holding (example_entry bytes v)) new_client
      ''ab'' ''k'' opts
    = (Inr (Some (example_entry bytes v)),
       new_client\<lparr>revisionNumberCache := [''ab/k'' \<mapsto> v], calls := [GetEntry ''ab'' ''k'']\<rparr>)"
  using assms lookup_eq[where D = "deps_holding (example_entry bytes v)" and publicKey = "''ab''"
      and dk = "''k''" and entry = "example_entry bytes v" and v = v and client = new_client
      and opts = opts, OF deps_holding_simps(3) example_entry_simps(1)]
  by (simp add: example_getCacheKey deps_holding_simps example_entry_simps new_client_def)

theorem parseDataLink_by_length_witness:
  "(\<exists>rawDataLink. parseDataLink (deps_holding (example_entry (replicate 46 65) 3))
        (replicate 46 65) True
      = Inr (rawDataLink, formatSkylink (deps_holding (example_entry (replicate 46 65) 3)) rawDataLink))
   \<and> fst (getJSON (deps_holding (example_entry (replicate 40 1) 3)) new_client ''ab'' ''k'' None)
       = Inl (ValidationError ''entry.data'' (LengthBytes 34))
   \<and> parseDataLink (deps_holding (example_entry (replicate 34 1) 3)) (replicate 34 1) False
       = Inr (''link'', ''sia://link'')
   \<and> fst (getRawBytes (deps_holding (example_entry (replicate 46 65) 3)) new_client ''ab'' ''k'' None)
       = Inl (ValidationError ''entry.data'' (LengthBytes 34))"
proof -
  have differ: "replicate 46 (65 :: 8 word) \<noteq> replicate 34 0"
    "replicate 40 (1 :: 8 word) \<noteq> replicate 34 0" "replicate 34 (1 :: 8 word) \<noteq> replicate 34 0"
    by (simp_all add: not_replicate replicate_eq_replicate)
  note legacy = parseDataLink_by_length[where D = "deps_holding (example_entry (replicate 46 65) 3)"
      and client = new_client and publicKey = "''ab''" and dk = "''k''" and custom = None,
      OF deps_holding_simps(1) deps_holding_simps(2) example_lookup[OF differ(1)]]
  note other = parseDataLink_by_length[where D = "deps_holding (example_entry (replicate 40 1) 3)"
      and client = new_client and publicKey = "''ab''" and dk = "''k''" and custom = None,
      OF deps_holding_simps(1) deps_holding_simps(2) example_lookup[OF differ(2)]]
  note raw = parseDataLink_by_length[where D = "deps_holding (example_entry (replicate 34 1) 3)"
      and client = new_client and publicKey = "''ab''" and dk = "''k''" and custom = None,
      OF deps_holding_simps(1) deps_holding_simps(2) example_lookup[OF differ(3)]]
  have codecs: "encodeSkylinkBase64 (deps_holding entry) bytes = ''link''"
    "formatSkylink (deps_holding entry) s = ''sia://'' @ s" for entry bytes s
    by (simp_all add: deps_holding_def example_deps_def)
  show ?thesis
    using legacy other raw
    by (simp add: deps_holding_simps example_entry_simps codecs)
qed

text \<open>
  C7 as the claim states it fails in \<open>getRawBytes\<close>: an entry whose data has the legacy
  base64 length, 46 bytes here against 34 for the raw form, is rejected there, while
  \<open>getJSON\<close> parses it.
\<close>

theorem getRawBytes_rejects_legacy_length:
  "length (data (example_entry (replicate 46 65) 3))
     = BASE64_ENCODED_SKYLINK_SIZE (deps_holding (example_entry (replicate 46 65) 3))
   \<and> fst (getRawBytes (deps_holding (example_entry (replicate 46 65) 3)) new_client ''ab'' ''k'' None)
       = Inl (ValidationError ''entry.data'' (LengthBytes 34))
   \<and> parseDataLink (deps_holding (example_entry (replicate 46 65) 3))
        (data (example_entry (replicate 46 65) 3)) True
       = Inr (''legacy'', ''sia://legacy'')"
proof -
  have differ: "replicate 46 (65 :: 8 word) \<noteq> replicate 34 0"
    by (simp add: not_replicate)
  have "getRawBytes (deps_holding (example_entry (replicate 46 65) 3)) new_client ''ab'' ''k'' None
    = (Inl (ValidationError ''entry.data'' (LengthBytes 34)),
       new_client\<lparr>revisionNumberCache := [''ab/k'' \<mapsto> 3], calls := [GetEntry ''ab'' ''k'']\<rparr>)"
    by (simp add: getRawBytes_def Let_def deps_holding_simps example_lookup[OF differ]
        parseDataLink_def example_entry_simps)
  moreover have "parseDataLink (deps_holding (example_entry (replicate 46 65) 3))
        (data (example_entry (replicate 46 65) 3)) True
       = Inr (''legacy'', ''sia://legacy'')"
    by (simp add: parseDataLink_def deps_holding_simps example_entry_simps)
      (simp add: deps_holding_def example_deps_def Let_def)
  ultimately show ?thesis
    by (simp add: deps_holding_simps example_entry_simps)
qed

section \<open>Unwrapping the downloaded JSON\<close>

lemma size_map_of: "map_of kvs k = Some v \<Longrightarrow> size v < size (JObject kvs)"
  by (induction kvs) (auto split: if_splits)

lemma property_differs: "truthy (property d k) \<Longrightarrow> property d k \<noteq> d"
proof (cases d)
  case (JObject kvs)
  assume t: "truthy (property d k)"
  show ?thesis
  proof (cases "map_of kvs k")
    case None
    with t JObject show ?thesis by simp
  next
    case (Some v)
    then have "size v < size d" using JObject size_map_of by blast
    with Some JObject show ?thesis by auto
  qed
qed simp_all

lemma unwrapJSON_eq:
  assumes "typeof_object d" and "d \<noteq> JNull"
  shows "unwrapJSON dk d =
    (if truthy (property d ''_data'') \<and> truthy (property d ''_v'')
     then (if typeof_object (property d ''_data'') then Inr (property d ''_data'')
           else Inl (DataNotJSON dk))
     else Inr d)"
  using assms by (simp add: unwrapJSON_def Let_def)

text \<open>
  C4, as the code has it. When \<open>getJSON\<close> has downloaded an object (the lookup returned an
  entry, its data link parsed and is not the caller's cached one, and the download returned
  a value that is an object and not \<open>null\<close>): if both \<open>_data\<close> and \<open>_v\<close> are present and
  truthy, the result is the \<open>_data\<close> field when that is an object, and the error "File data
  '_data' ... is not JSON" when it is not; in every other case, so also when only one of
  the two fields is present or one of them is falsy, the result is the object as it is. The
  object is returned as it is exactly when \<open>_data\<close> or \<open>_v\<close> is missing or falsy.
\<close>

theorem getJSON_unwraps_when_both_truthy:
  assumes "validatePublicKey D publicKey = None"
    and "validateOptionalObject D custom (DEFAULT_GET_JSON_OPTIONS D) = None"
    and "opts = DEFAULT_GET_JSON_OPTIONS D ++ customOptions client ++ spread custom"
    and "getSkyDBRegistryEntryAndUpdateCache D client publicKey dk
           (extractOptions D opts (DEFAULT_GET_ENTRY_OPTIONS D)) = (Inr (Some entry), client1)"
    and "parseDataLink D (data entry) True = Inr (rawDataLink, dataLink)"
    and "checkCachedDataLink D rawDataLink (option_value opts ''cachedDataLink'') = Inr False"
    and "getFileContent D dataLink (extractOptions D opts (DEFAULT_DOWNLOAD_OPTIONS D))
           = Inr downloaded"
    and "typeof_object downloaded"
    and "downloaded \<noteq> JNull"
  shows
    "fst (getJSON D client publicKey dk custom) =
       (if truthy (property downloaded ''_data'') \<and> truthy (property downloaded ''_v'')
        then (if typeof_object (property downloaded ''_data'')
              then Inr (Some (property downloaded ''_data''), Some dataLink)
              else Inl (DataNotJSON dk))
        else Inr (Some downloaded, Some dataLink))
     \<and> ((fst (getJSON D client publicKey dk custom) = Inr (Some downloaded, Some dataLink))
          = (\<not> (truthy (property downloaded ''_data'') \<and> truthy (property downloaded ''_v''))))"
proof -
  have run: "fst (getJSON D client publicKey dk custom) =
      (case unwrapJSON dk downloaded of
         Inl e \<Rightarrow> Inl e
       | Inr json \<Rightarrow> Inr (Some json, Some dataLink))"
    using assms(1,2,4,5,6,7) unfolding assms(3)
    by (simp add: getJSON_def Let_def split: sum.splits)
  have result: "fst (getJSON D client publicKey dk custom) =
       (if truthy (property downloaded ''_data'') \<and> truthy (property downloaded ''_v'')
        then (if typeof_object (property downloaded ''_data'')
              then Inr (Some (property downloaded ''_data''), Some dataLink)
              else Inl (DataNotJSON dk))
        else Inr (Some downloaded, Some dataLink))"
    unfolding run unwrapJSON_eq[OF assms(8,9)] by simp
  show ?thesis
    unfolding result using property_differs[of downloaded "''_data''"] by auto
qed


lemma deps_serving_simps:
  "validatePublicKey (deps_serving entry document) publicKey = None"
  "validateOptionalObject (deps_serving entry document) custom model = None"
  "registry_getEntry (deps_serving entry document) publicKey dk opts = Inr (Some entry)"
  "RAW_SKYLINK_SIZE (deps_serving entry document) = 34"
  "BASE64_ENCODED_SKYLINK_SIZE (deps_serving entry document) = 46"
  "getFileContent (deps_serving entry document) dataLink opts = Inr document"
  "encodeSkylinkBase64 (deps_serving entry document) bytes = ''link''"
  "formatSkylink (deps_serving entry document) s = ''sia://'' @ s"
  "extractOptions (deps_serving entry document) opts model = opts"
  "DEFAULT_BASE_OPTIONS (deps_serving entry document) = Map.empty"
  "DEFAULT_DOWNLOAD_OPTIONS (deps_serving entry document) = Map.empty"
  "DEFAULT_GET_ENTRY_OPTIONS (deps_serving entry document) = [''hashedDataKeyHex'' \<mapsto> JBool False]"
  by (simp_all add: deps_serving_def deps_holding_def example_deps_def)

lemma serving_lookup:
  "getSkyDBRegistryEntryAndUpdateCache (deps_serving (example_entry (replicate 34 1) v) document)
      new_client ''ab'' ''k'' opts
    = (Inr (Some (example_entry (replicate 34 1) v)),
       new_client\<lparr>revisionNumberCache := [''ab/k'' \<mapsto> v], calls := [GetEntry ''ab'' ''k'']\<rparr>)"
  using lookup_eq[where D = "deps_serving (example_entry (replicate 34 1) v) document"
      and publicKey = "''ab''" and dk = "''k''" and entry = "example_entry (replicate 34 1) v"
      and v = v and client = new_client and opts = opts,
      OF deps_serving_simps(3) example_entry_simps(1)]
  by (simp add: example_getCacheKey deps_serving_simps example_entry_simps new_client_def
      replicate_eq_replicate)

lemma serving_parse:
  "parseDataLink (deps_serving entry document) (data (example_entry (replicate 34 1) v)) True
     = Inr (''link'', ''sia://link'')"
  by (simp add: parseDataLink_def deps_serving_simps example_entry_simps Let_def)

lemma serving_not_cached:
  "checkCachedDataLink (deps_serving entry document) rawDataLink
     (option_value
        (DEFAULT_GET_JSON_OPTIONS (deps_serving entry document) ++ customOptions new_client
           ++ spread None) ''cachedDataLink'') = Inr False"
  by (simp add: checkCachedDataLink_def option_value_def DEFAULT_GET_JSON_OPTIONS_def
      new_client_def spread_def)

theorem getJSON_unwraps_when_both_truthy_witness:
  "fst (getJSON
          (deps_serving (example_entry (replicate 34 1) 3)
             (JObject [(''_data'', JObject [(''a'', JNumber 1)]), (''_v'', JNumber 2)]))
          new_client ''ab'' ''k'' None)
     = Inr (Some (JObject [(''a'', JNumber 1)]), Some ''sia://link'')
   \<and> fst (getJSON
          (deps_serving (example_entry (replicate 34 1) 3) (JObject [(''a'', JNumber 1)]))
          new_client ''ab'' ''k'' None)
     = Inr (Some (JObject [(''a'', JNumber 1)]), Some ''sia://link'')"
proof -
  note wrapped = getJSON_unwraps_when_both_truthy[
      where D = "deps_serving (example_entry (replicate 34 1) 3)
             (JObject [(''_data'', JObject [(''a'', JNumber 1)]), (''_v'', JNumber 2)])"
      and client = new_client and publicKey = "''ab''" and dk = "''k''" and custom = None
      and entry = "example_entry (replicate 34 1) 3",
      OF deps_serving_simps(1) deps_serving_simps(2) refl serving_lookup
        serving_parse
        serving_not_cached deps_serving_simps(6)]
  note legacy = getJSON_unwraps_when_both_truthy[
      where D = "deps_serving (example_entry (replicate 34 1) 3) (JObject [(''a'', JNumber 1)])"
      and client = new_client and publicKey = "''ab''" and dk = "''k''" and custom = None
      and entry = "example_entry (replicate 34 1) 3",
      OF deps_serving_simps(1) deps_serving_simps(2) refl serving_lookup
        serving_parse
        serving_not_cached deps_serving_simps(6)]
  show ?thesis
    using wrapped legacy by simp
qed

lemma serving_getJSON:
  "fst (getJSON (deps_serving (example_entry (replicate 34 1) 3) document) new_client
          ''ab'' ''k'' None)
     = (case unwrapJSON ''k'' document of
          Inl e \<Rightarrow> Inl e
        | Inr json \<Rightarrow> Inr (Some json, Some ''sia://link''))"
  using serving_not_cached[of "example_entry (replicate 34 1) 3" document "''link''"]
  by (simp add: getJSON_def Let_def deps_serving_simps(1,2,6,9) serving_lookup serving_parse
      split: sum.splits)

text \<open>
  C4 as the claim states it fails twice. An object that has the \<open>_data\<close> field and lacks only
  \<open>_v\<close> is returned as it is, although it does not lack both fields. And an object with the
  wrapper whose \<open>_data\<close> is a string is not unwrapped: \<open>getJSON\<close> throws.
\<close>

theorem getJSON_legacy_with_one_field:
  "property (JObject [(''_data'', JObject [(''a'', JNumber 1)])]) ''_data''
     = JObject [(''a'', JNumber 1)]
   \<and> fst (getJSON
          (deps_serving (example_entry (replicate 34 1) 3)
             (JObject [(''_data'', JObject [(''a'', JNumber 1)])]))
          new_client ''ab'' ''k'' None)
     = Inr (Some (JObject [(''_data'', JObject [(''a'', JNumber 1)])]), Some ''sia://link'')
   \<and> fst (getJSON
          (deps_serving (example_entry (replicate 34 1) 3)
             (JObject [(''_data'', JString ''x''), (''_v'', JNumber 2)]))
          new_client ''ab'' ''k'' None)
     = Inl (DataNotJSON ''k'')"
  by (simp add: serving_getJSON unwrapJSON_def)

section \<open>Padded file sizes\<close>

lemmas pad_run = padFileSize_def checkPaddedBlock_def shl1_def kib_def js_rem_def

lemma padFileSize_tests:
  "padFileSize (1 * 1024) = Inr (4 * 1024)"
  "padFileSize (4 * 1024) = Inr (4 * 1024)"
  "padFileSize (5 * 1024) = Inr (8 * 1024)"
  "padFileSize (105 * 1024) = Inr (112 * 1024)"
  "padFileSize (305 * 1024) = Inr (320 * 1024)"
  "padFileSize (351 * 1024) = Inr (352 * 1024)"
  "padFileSize (352 * 1024) = Inr (352 * 1024)"
  "padFileSize (2 ^ 20) = Inr (2 ^ 20)"
  "padFileSize (100 * 2 ^ 20) = Inr (104 * 2 ^ 20)"
  "padFileSize (2 ^ 30) = Inr (2 ^ 30)"
  "padFileSize (100 * 2 ^ 30) = Inr (104 * 2 ^ 30)"
  by (simp_all add: pad_run)

lemma checkPaddedBlock_tests:
  "checkPaddedBlock (1 * 1024) = Inr False"
  "checkPaddedBlock (4 * 1024) = Inr True"
  "checkPaddedBlock (5 * 1024) = Inr False"
  "checkPaddedBlock (105 * 1024) = Inr False"
  "checkPaddedBlock (305 * 1024) = Inr False"
  "checkPaddedBlock (351 * 1024) = Inr False"
  "checkPaddedBlock (352 * 1024) = Inr True"
  "checkPaddedBlock (2 ^ 20) = Inr True"
  "checkPaddedBlock (100 * 2 ^ 20) = Inr False"
  "checkPaddedBlock (2 ^ 30) = Inr True"
  "checkPaddedBlock (100 * 2 ^ 30) = Inr False"
  by (simp_all add: pad_run)

lemma overflow_tests:
  "padFileSize (2 ^ 53 - 1) = Inl PadOverflow"
  "checkPaddedBlock (2 ^ 53 - 1) = Inl CheckOverflow"
  by (simp_all add: pad_run)


subsection \<open>The shift\<close>

lemma sint_two_power: "k < 31 \<Longrightarrow> sint ((2 :: 32 word) ^ k) = 2 ^ k"
proof -
  assume k: "k < 31"
  have lt: "(2::int) ^ k < 2 ^ 31"
    using k power_strict_increasing[of k 31 "2::int"] by simp
  have ge: "- (2 ^ 31) \<le> (2::int) ^ k"
    by (rule order_trans[of _ 0]) simp_all
  have eq: "(2 :: 32 word) ^ k = word_of_int (2 ^ k)"
    by simp
  have "sint (word_of_int (2 ^ k) :: 32 word) = signed_take_bit (LENGTH(32) - 1) ((2::int) ^ k)"
    by (rule sint_sbintrunc')
  also have "\<dots> = 2 ^ k"
    using signed_take_bit_int_eq_self[OF ge lt] by simp
  finally show ?thesis unfolding eq .
qed

lemma shl1_eq: "shl1 n = (if n mod 32 = 31 then - (2 ^ 31) else 2 ^ (n mod 32))"
proof (cases "n mod 32 = 31")
  case True
  then show ?thesis by (simp add: shl1_def)
next
  case False
  have "n mod 32 < 32" by simp
  with False have "n mod 32 < 31" by linarith
  then show ?thesis using False by (simp add: shl1_def sint_two_power)
qed

lemma shl1_small: "n \<le> 30 \<Longrightarrow> shl1 n = 2 ^ n"
  by (simp add: shl1_eq)

lemma shl1_wraps: "32 \<le> n \<Longrightarrow> shl1 n = shl1 (n - 32)"
  using le_mod_geq[of 32 n] by (simp add: shl1_eq)

lemma shl1_le: "shl1 n \<le> 2 ^ 30"
proof (cases "n mod 32 = 31")
  case True
  then show ?thesis by (simp add: shl1_eq)
next
  case False
  have "n mod 32 < 32" by simp
  with False have "n mod 32 \<le> 30" by linarith
  then have "(2::int) ^ (n mod 32) \<le> 2 ^ 30"
    by (rule power_increasing) simp
  then show ?thesis using False by (simp add: shl1_eq)
qed

text \<open>The first \<open>n\<close> whose range holds a size is at most 30: past it the shift wraps.\<close>

lemma first_range_small:
  assumes "m < 53" and "s \<le> shl1 m * 80 * kib"
    and "\<forall>j. j < m \<longrightarrow> \<not> s \<le> shl1 j * 80 * kib"
  shows "m \<le> 30"
proof (rule ccontr)
  assume "\<not> m \<le> 30"
  then consider "m = 31" | "32 \<le> m" by linarith
  then show False
  proof cases
    case 1
    have "\<not> s \<le> shl1 0 * 80 * kib" using assms(3) 1 by simp
    moreover have "s \<le> shl1 0 * 80 * kib"
      using assms(2) 1 by (simp add: shl1_eq kib_def)
    ultimately show False by simp
  next
    case 2
    then have "m - 32 < m" by simp
    then have "\<not> s \<le> shl1 (m - 32) * 80 * kib" using assms(3) by blast
    then show False using assms(2) shl1_wraps[OF 2] by simp
  qed
qed


subsection \<open>Rounding up to a block\<close>

lemma js_rem_dvd: "0 < b \<Longrightarrow> (js_rem a b = 0) = (b dvd a)"
  by (cases "a = 0") (auto simp add: js_rem_def sgn_if abs_if mod_eq_0_iff_dvd)

lemma round_up_props:
  assumes b: "0 < b" and s: "s \<le> 20 * b"
    and r: "r = (if js_rem s b \<noteq> 0 then s - js_rem s b + b else s)"
  shows "s \<le> r \<and> b dvd r \<and> r \<le> 20 * b"
proof (cases "js_rem s b = 0")
  case True
  then have "r = s" using r by simp
  then show ?thesis
    using True s js_rem_dvd[OF b, of s] by simp
next
  case False
  show ?thesis
  proof (cases "0 \<le> s")
    case True
    then have rem: "js_rem s b = s mod b"
      using b by (cases "s = 0") (simp_all add: js_rem_def sgn_if)
    have req: "r = b * (s div b + 1)"
      using r False rem by (simp add: algebra_simps minus_mod_eq_mult_div [symmetric])
    have "s mod b < b" using b by simp
    then have le: "s \<le> r" using r False rem by simp
    have dvd: "b dvd r" using req by simp
    have "s mod b \<noteq> 0" using False rem by simp
    then have "s \<noteq> 20 * b" by auto
    then have "s < 20 * b" using s by simp
    moreover have "b * (s div b) = s - s mod b" by (simp add: minus_mod_eq_mult_div)
    moreover have "0 \<le> s mod b" using b by simp
    ultimately have "b * (s div b) < b * 20" by simp
    then have "s div b < 20" using b by (simp only: mult_less_cancel_left_pos)
    then have "s div b + 1 \<le> 20" by simp
    then have "b * (s div b + 1) \<le> b * 20" using b by (simp only: mult_le_cancel_left_pos)
    then have "r \<le> 20 * b" using req by (simp add: mult.commute)
    with le dvd show ?thesis by simp
  next
    case neg: False
    then have rem: "js_rem s b = - ((- s) mod b)"
      using b by (simp add: js_rem_def sgn_if)
    have req: "r = b * (1 - (- s) div b)"
      using r False rem by (simp add: algebra_simps minus_mod_eq_mult_div [symmetric])
    have "0 \<le> (- s) mod b" using b by simp
    then have le: "s \<le> r" using r False rem b by simp
    have dvd: "b dvd r" using req by simp
    have "0 \<le> (- s) div b" using neg b div_int_pos_iff by simp
    then have "1 - (- s) div b \<le> 20" by simp
    then have "b * (1 - (- s) div b) \<le> b * 20" using b by (simp only: mult_le_cancel_left_pos)
    then have "r \<le> 20 * b" using req by (simp add: mult.commute)
    with le dvd show ?thesis by simp
  qed
qed


subsection \<open>The two loops\<close>

lemma padFileSize_loop_found:
  "padFileSize_loop n s = Inr r \<Longrightarrow>
     \<exists>m. n \<le> m \<and> m < 53 \<and> s \<le> shl1 m * 80 * kib
       \<and> (\<forall>j. n \<le> j \<and> j < m \<longrightarrow> \<not> s \<le> shl1 j * 80 * kib)
       \<and> r = (if js_rem s (shl1 m * 4 * kib) \<noteq> 0
              then s - js_rem s (shl1 m * 4 * kib) + shl1 m * 4 * kib else s)"
proof (induction n s rule: padFileSize_loop.induct)
  case (1 n s)
  have n: "n < 53"
    using "1.prems" by (subst (asm) padFileSize_loop.simps) (simp split: if_splits)
  show ?case
  proof (cases "s \<le> shl1 n * 80 * kib")
    case True
    then have "r = (if js_rem s (shl1 n * 4 * kib) \<noteq> 0
              then s - js_rem s (shl1 n * 4 * kib) + shl1 n * 4 * kib else s)"
      using "1.prems" n
      by (subst (asm) padFileSize_loop.simps) (simp add: Let_def split: if_splits)
    then show ?thesis using True n by (intro exI[of _ n]) simp
  next
    case False
    then have "padFileSize_loop (n + 1) s = Inr r"
      using "1.prems" n by (subst (asm) padFileSize_loop.simps) simp
    then obtain m where m: "n + 1 \<le> m" "m < 53" "s \<le> shl1 m * 80 * kib"
      "\<forall>j. n + 1 \<le> j \<and> j < m \<longrightarrow> \<not> s \<le> shl1 j * 80 * kib"
      "r = (if js_rem s (shl1 m * 4 * kib) \<noteq> 0
              then s - js_rem s (shl1 m * 4 * kib) + shl1 m * 4 * kib else s)"
      using "1.IH"[OF n False] by blast
    have "\<forall>j. n \<le> j \<and> j < m \<longrightarrow> \<not> s \<le> shl1 j * 80 * kib"
    proof (intro allI impI)
      fix j assume j: "n \<le> j \<and> j < m"
      show "\<not> s \<le> shl1 j * 80 * kib"
      proof (cases "j = n")
        case True
        then show ?thesis using False by simp
      next
        case other: False
        then have "n + 1 \<le> j \<and> j < m" using j by simp
        then show ?thesis using m(4) by blast
      qed
    qed
    then show ?thesis using m by (intro exI[of _ m]) simp
  qed
qed

lemma padFileSize_loop_at:
  "n \<le> m \<Longrightarrow> m < 53 \<Longrightarrow> s \<le> shl1 m * 80 * kib
     \<Longrightarrow> \<forall>j. n \<le> j \<and> j < m \<longrightarrow> \<not> s \<le> shl1 j * 80 * kib
     \<Longrightarrow> padFileSize_loop n s =
       Inr (if js_rem s (shl1 m * 4 * kib) \<noteq> 0
            then s - js_rem s (shl1 m * 4 * kib) + shl1 m * 4 * kib else s)"
proof (induction n s rule: padFileSize_loop.induct)
  case (1 n s)
  have n: "n < 53" using "1.prems" by simp
  show ?case
  proof (cases "n = m")
    case True
    then show ?thesis
      using "1.prems" by (subst padFileSize_loop.simps) (simp add: Let_def)
  next
    case False
    then have lt: "n < m" using "1.prems" by simp
    then have no: "\<not> s \<le> shl1 n * 80 * kib" using "1.prems" by blast
    have "padFileSize_loop (n + 1) s =
       Inr (if js_rem s (shl1 m * 4 * kib) \<noteq> 0
            then s - js_rem s (shl1 m * 4 * kib) + shl1 m * 4 * kib else s)"
      using "1.IH"[OF n no] lt "1.prems" by simp
    then show ?thesis
      using n no by (subst padFileSize_loop.simps) simp
  qed
qed

lemma checkPaddedBlock_loop_at:
  "n \<le> m \<Longrightarrow> m < 53 \<Longrightarrow> s \<le> shl1 m * 80 * kib
     \<Longrightarrow> \<forall>j. n \<le> j \<and> j < m \<longrightarrow> \<not> s \<le> shl1 j * 80 * kib
     \<Longrightarrow> checkPaddedBlock_loop n s = Inr (js_rem s (shl1 m * 4 * kib) = 0)"
proof (induction n s rule: checkPaddedBlock_loop.induct)
  case (1 n s)
  have n: "n < 53" using "1.prems" by simp
  show ?case
  proof (cases "n = m")
    case True
    then show ?thesis
      using "1.prems" by (subst checkPaddedBlock_loop.simps) (simp add: Let_def)
  next
    case False
    then have lt: "n < m" using "1.prems" by simp
    then have no: "\<not> s \<le> shl1 n * 80 * kib" using "1.prems" by blast
    have "checkPaddedBlock_loop (n + 1) s = Inr (js_rem s (shl1 m * 4 * kib) = 0)"
      using "1.IH"[OF n no] lt "1.prems" by simp
    then show ?thesis
      using n no by (subst checkPaddedBlock_loop.simps) simp
  qed
qed

lemma padFileSize_loop_returns:
  "n \<le> m \<Longrightarrow> m < 53 \<Longrightarrow> s \<le> shl1 m * 80 * kib \<Longrightarrow> \<exists>r. padFileSize_loop n s = Inr r"
proof (induction n s rule: padFileSize_loop.induct)
  case (1 n s)
  have n: "n < 53" using "1.prems" by simp
  show ?case
  proof (cases "s \<le> shl1 n * 80 * kib")
    case True
    then show ?thesis
      using n by (subst padFileSize_loop.simps) (simp add: Let_def)
  next
    case False
    then have "n \<noteq> m" using "1.prems" by auto
    then have "n + 1 \<le> m" using "1.prems" by simp
    then have "\<exists>r. padFileSize_loop (n + 1) s = Inr r"
      using "1.IH"[OF n False] "1.prems" by simp
    then show ?thesis
      using n False by (subst padFileSize_loop.simps) simp
  qed
qed

lemma padFileSize_loop_overflow:
  "\<forall>j. n \<le> j \<and> j < 53 \<longrightarrow> \<not> s \<le> shl1 j * 80 * kib \<Longrightarrow> padFileSize_loop n s = Inl PadOverflow"
proof (induction n s rule: padFileSize_loop.induct)
  case (1 n s)
  show ?case
  proof (cases "n < 53")
    case True
    then have no: "\<not> s \<le> shl1 n * 80 * kib" using "1.prems" by blast
    have "padFileSize_loop (n + 1) s = Inl PadOverflow"
      using "1.IH"[OF True no] "1.prems" by simp
    then show ?thesis
      using True no by (subst padFileSize_loop.simps) simp
  next
    case False
    then show ?thesis by (subst padFileSize_loop.simps) simp
  qed
qed


subsection \<open>The claims about padding\<close>

lemma largest_range: "shl1 30 * 80 * kib = 80 * 2 ^ 40"
  by (simp add: shl1_small kib_def)

lemma beyond_ranges: "80 * 2 ^ 40 < s \<Longrightarrow> \<not> s \<le> shl1 j * 80 * kib"
proof -
  assume "80 * 2 ^ 40 < s"
  moreover have "shl1 j * 80 * kib \<le> 2 ^ 30 * 80 * kib"
    using shl1_le[of j] by (simp add: kib_def)
  ultimately show ?thesis by (simp add: kib_def)
qed

text \<open>
  C9. A size is valid when \<open>padFileSize\<close> returns for it, which it does exactly for the
  sizes up to \<open>80 * 2^40\<close>; beyond, it throws the overflow error. For a valid size \<open>s\<close>
  with \<open>padFileSize(s) = r\<close>: \<open>padFileSize(r) = r\<close>, \<open>r \<ge> s\<close> and \<open>checkPaddedBlock(r)\<close> is
  true.
\<close>

theorem padFileSize_idempotent:
  "(padFileSize s = Inr r \<longrightarrow>
      padFileSize r = Inr r \<and> s \<le> r \<and> checkPaddedBlock r = Inr True)
   \<and> ((\<exists>r. padFileSize s = Inr r) = (s \<le> 80 * 2 ^ 40))
   \<and> (80 * 2 ^ 40 < s \<longrightarrow> padFileSize s = Inl PadOverflow)"
proof -
  have padded: "padFileSize r = Inr r \<and> s \<le> r \<and> checkPaddedBlock r = Inr True"
    and valid: "s \<le> 80 * 2 ^ 40"
    if returned: "padFileSize s = Inr r" for r
  proof -
    obtain m where m: "m < 53" "s \<le> shl1 m * 80 * kib"
      "\<forall>j. 0 \<le> j \<and> j < m \<longrightarrow> \<not> s \<le> shl1 j * 80 * kib"
      "r = (if js_rem s (shl1 m * 4 * kib) \<noteq> 0
            then s - js_rem s (shl1 m * 4 * kib) + shl1 m * 4 * kib else s)"
      using padFileSize_loop_found[of 0 s r] returned unfolding padFileSize_def by blast
    have "m \<le> 30"
      using first_range_small[OF m(1,2)] m(3) by simp
    then have shift: "shl1 m = 2 ^ m" by (rule shl1_small)
    let ?b = "shl1 m * 4 * kib"
    have b: "0 < ?b" by (simp add: shift kib_def)
    have range: "shl1 m * 80 * kib = 20 * ?b" by simp
    have props: "s \<le> r \<and> ?b dvd r \<and> r \<le> 20 * ?b"
      using round_up_props[OF b _ m(4)] m(2) unfolding range by simp
    then have rem: "js_rem r ?b = 0"
      using js_rem_dvd[OF b, of r] by simp
    have inside: "r \<le> shl1 m * 80 * kib"
      using props unfolding range by simp
    have above: "\<forall>j. 0 \<le> j \<and> j < m \<longrightarrow> \<not> r \<le> shl1 j * 80 * kib"
      using m(3) props by force
    have "padFileSize r = Inr r"
      using padFileSize_loop_at[OF _ m(1) inside above] rem by (simp add: padFileSize_def)
    moreover have "checkPaddedBlock r = Inr True"
      using checkPaddedBlock_loop_at[OF _ m(1) inside above] rem
      by (simp add: checkPaddedBlock_def)
    ultimately show "padFileSize r = Inr r \<and> s \<le> r \<and> checkPaddedBlock r = Inr True"
      using props by simp
    have "shl1 m * 80 * kib \<le> 2 ^ 30 * 80 * kib"
      using shl1_le[of m] by (simp add: kib_def)
    then show "s \<le> 80 * 2 ^ 40"
      using m(2) by (simp add: kib_def)
  qed
  have returns: "\<exists>r. padFileSize s = Inr r" if "s \<le> 80 * 2 ^ 40"
    using padFileSize_loop_returns[of 0 30 s] that
    unfolding padFileSize_def largest_range by simp
  have overflow: "padFileSize s = Inl PadOverflow" if "80 * 2 ^ 40 < s"
    unfolding padFileSize_def
    by (rule padFileSize_loop_overflow) (simp add: beyond_ranges[OF that])
  show ?thesis
    using padded valid returns overflow by blast
qed

theorem padFileSize_idempotent_witness:
  "padFileSize 8192 = Inr 8192 \<and> (5000::int) \<le> 8192 \<and> checkPaddedBlock 8192 = Inr True
   \<and> (\<exists>r. padFileSize 5000 = Inr r)
   \<and> padFileSize (80 * 2 ^ 40 + 1) = Inl PadOverflow"
proof -
  have "padFileSize 5000 = Inr 8192"
    by (simp add: pad_run)
  then show ?thesis
    using padFileSize_idempotent[of 5000 8192] padFileSize_idempotent[of "80 * 2 ^ 40 + 1" 0]
    by simp
qed

text \<open>
  C8, as the model has it. The size \<open>100 * 2^20\<close>, the test's 100 MiB, is padded to
  \<open>104 * 2^20\<close>; \<open>352 * 1024\<close> is a padded block and \<open>351 * 1024\<close> is not.
\<close>

theorem padFileSize_vectors:
  "padFileSize (100 * 2 ^ 20) = Inr (104 * 2 ^ 20)
   \<and> checkPaddedBlock (352 * 1024) = Inr True
   \<and> checkPaddedBlock (351 * 1024) = Inr False"
  by (simp add: pad_run)

theorem padFileSize_vectors_witness:
  "padFileSize 104857600 = Inr 109051904
   \<and> checkPaddedBlock 360448 = Inr True
   \<and> checkPaddedBlock 359424 = Inr False"
  using padFileSize_vectors by simp

text \<open>
  C8 as the claim states it fails at its first vector: \<open>100_000_000\<close> is not 100 MiB, it
  lies below \<open>96 * 2^20\<close> and is padded to that.
\<close>

theorem padFileSize_hundred_million:
  "padFileSize 100000000 = Inr (96 * 2 ^ 20)
   \<and> padFileSize 100000000 \<noteq> Inr (104 * 2 ^ 20)"
  by (simp add: pad_run)

end
